theory Spec2Isabelle
  imports Complex_Main "HOL-Library.Word"
begin

section \<open>godcinfo: datastore clusters and standalone datastores per vSphere cluster\<close>

text \<open>
  The program is \<^verbatim>\<open>main.go\<close>: one \<^verbatim>\<open>main\<close> function that connects to vSphere through the
  govmomi library, resolves a datacenter, lists its clusters and, for every cluster, prints (or
  collects for JSON) the datastore clusters (storage pods) with their datastores and the
  standalone datastores. The embedding follows the source region by region; every call into
  govmomi is a field of the record \<open>govmomi\<close> below, every \<^verbatim>\<open>os.Exit\<close> a returned exit code, and
  standard output the list of the chunks written by the successive \<^verbatim>\<open>fmt\<close> calls.
\<close>

subsection \<open>Data\<close>

text \<open>A Go \<^verbatim>\<open>error\<close> is represented by its message, which is all the program does with it.\<close>

type_synonym err = string

text \<open>\<^verbatim>\<open>types.ManagedObjectReference\<close>\<close>

record ManagedObjectReference =
  Type :: string
  Value :: string

text \<open>\<^verbatim>\<open>Config\<close>, the connection parameters.\<close>

record Config =
  URL :: string
  Username :: string
  Password :: string
  Insecure :: bool
  Datacenter :: string
  OutputJSON :: bool

text \<open>
  A \<^verbatim>\<open>float64\<close> is represented by the rational number it denotes: every value the program
  computes is finite (see \<open>float64_of_int64\<close> below).
\<close>

type_synonym float64 = rat

text \<open>\<^verbatim>\<open>DatastoreInfo\<close>, \<^verbatim>\<open>DatastoreClusterInfo\<close>, \<^verbatim>\<open>ClusterInfo\<close>, \<^verbatim>\<open>InfrastructureInfo\<close>:
  the report model serialised in JSON mode. The fields carry the struct's initials, since
  several structs have a field \<^verbatim>\<open>Name\<close>.\<close>

record DatastoreInfo =
  di_Name :: string
  di_Capacity :: float64
  di_FreeSpace :: float64

record DatastoreClusterInfo =
  dci_Name :: string
  dci_Datastores :: "DatastoreInfo list"

record ClusterInfo =
  ci_Name :: string
  ci_DatastoreClusters :: "DatastoreClusterInfo list"
  ci_StandaloneDatastores :: "DatastoreInfo list"

record InfrastructureInfo =
  ii_Datacenter :: string
  ii_Clusters :: "ClusterInfo list"

text \<open>
  The govmomi objects the program reads. Of \<^verbatim>\<open>mo.Datastore\<close> it reads \<^verbatim>\<open>Reference()\<close>,
  \<^verbatim>\<open>Name\<close>, \<^verbatim>\<open>Summary.Capacity\<close> and \<^verbatim>\<open>Summary.FreeSpace\<close> (both \<^verbatim>\<open>int64\<close>); of
  \<^verbatim>\<open>mo.StoragePod\<close> \<^verbatim>\<open>Name\<close> and \<^verbatim>\<open>ChildEntity\<close>; of \<^verbatim>\<open>object.Datacenter\<close> \<^verbatim>\<open>Name()\<close> and
  \<^verbatim>\<open>InventoryPath\<close>; of \<^verbatim>\<open>object.ClusterComputeResource\<close> \<^verbatim>\<open>Name()\<close> and \<^verbatim>\<open>Reference()\<close>.
\<close>

record mo_Datastore =
  ds_Reference :: ManagedObjectReference
  ds_Name :: string
  ds_Capacity :: "64 word"
  ds_FreeSpace :: "64 word"

record mo_StoragePod =
  sp_Name :: string
  sp_ChildEntity :: "ManagedObjectReference list"

record object_Datacenter =
  dc_Name :: string
  dc_InventoryPath :: string

record object_ClusterComputeResource =
  ccr_Name :: string
  ccr_Reference :: ManagedObjectReference

type_synonym object_Folder = ManagedObjectReference

text \<open>
  A child of a folder is an \<^verbatim>\<open>object.Reference\<close>; the program only asks whether it is a
  \<^verbatim>\<open>*object.StoragePod\<close> (the type assertion of line 176).
\<close>

datatype object_Reference =
  StoragePod ManagedObjectReference
| OtherObject ManagedObjectReference

subsection \<open>The library\<close>

text \<open>
  The calls into govmomi and \<^verbatim>\<open>encoding/json\<close>. A remote call may answer differently each time
  it is made, so it takes the state of the world \<open>'w\<close> and returns the next one with its
  answer; the record says nothing about the answers (what the finder never answers is
  \<open>finder_contract\<close> below). The finder calls made after
  \<^verbatim>\<open>finder.SetDatacenter(dc)\<close> take that datacenter. \<^verbatim>\<open>pc.RetrieveOne\<close> is called at two types
  (a storage pod's \<^verbatim>\<open>name, childEntity\<close> and a cluster's \<^verbatim>\<open>datastore\<close>), hence two fields.
\<close>

record 'w govmomi =
  ParseURL :: "string \<Rightarrow> err + string"
  NewClient :: "'w \<Rightarrow> string \<Rightarrow> bool \<Rightarrow> (err + unit) \<times> 'w"
  Login :: "'w \<Rightarrow> string \<Rightarrow> string \<Rightarrow> (err + unit) \<times> 'w"
  Logout :: "'w \<Rightarrow> 'w"
  finder_Datacenter :: "'w \<Rightarrow> string \<Rightarrow> (err + object_Datacenter) \<times> 'w"
  DefaultDatacenter :: "'w \<Rightarrow> (err + object_Datacenter) \<times> 'w"
  DatacenterList :: "'w \<Rightarrow> string \<Rightarrow> (err + object_Datacenter list) \<times> 'w"
  ClusterComputeResourceList ::
    "'w \<Rightarrow> object_Datacenter \<Rightarrow> string \<Rightarrow> (err + object_ClusterComputeResource list) \<times> 'w"
  FolderList :: "'w \<Rightarrow> object_Datacenter \<Rightarrow> string \<Rightarrow> (err + object_Folder list) \<times> 'w"
  Children :: "'w \<Rightarrow> object_Folder \<Rightarrow> (err + object_Reference list) \<times> 'w"
  RetrieveOne_StoragePod :: "'w \<Rightarrow> ManagedObjectReference \<Rightarrow> (err + mo_StoragePod) \<times> 'w"
  RetrieveOne_Cluster ::
    "'w \<Rightarrow> ManagedObjectReference \<Rightarrow> (err + ManagedObjectReference list) \<times> 'w"
  Retrieve :: "'w \<Rightarrow> ManagedObjectReference list \<Rightarrow> (err + mo_Datastore list) \<times> 'w"
  MarshalIndent :: "InfrastructureInfo \<Rightarrow> err + string"

text \<open>What a run leaves behind: the chunks written to standard output and the exit code.\<close>

record Run =
  stdout :: "string list"
  exit_code :: int

definition nl :: string where
  "nl = [CHR 0x0A]"

subsection \<open>Numbers: \<^verbatim>\<open>float64(int64)\<close>, the division and \<^verbatim>\<open>%.2f\<close>\<close>

fun bit_length :: "nat \<Rightarrow> nat" where
  "bit_length n = (if n = 0 then 0 else Suc (bit_length (n div 2)))"

declare bit_length.simps [simp del]

text \<open>\<open>a / 2 ^ e\<close> rounded to the nearest integer, a tie to the even one.\<close>

definition round_ties_even :: "nat \<Rightarrow> nat \<Rightarrow> nat" where
  "round_ties_even a e =
     (let q = a div 2 ^ e; r = a mod 2 ^ e
      in if 2 ^ e < 2 * r \<or> (2 * r = 2 ^ e \<and> odd q) then q + 1 else q)"

text \<open>
  Go's conversion \<^verbatim>\<open>float64(x)\<close> of an \<^verbatim>\<open>int64\<close>: the nearest value with a significand of 53
  bits, ties to even. Up to \<open>2 ^ 53\<close> in magnitude nothing is lost.
\<close>

definition float64_of_int64 :: "64 word \<Rightarrow> float64" where
  "float64_of_int64 x =
     (let i = sint x; a = nat \<bar>i\<bar>; e = bit_length a - 53;
          m = round_ties_even a e * 2 ^ e
      in if i < 0 then - of_nat m else of_nat m)"

text \<open>
  Lines 241-242 and 292-293: \<^verbatim>\<open>float64(ds.Summary.Capacity) / (1024 * 1024 * 1024)\<close>. The divisor
  is a power of two and the quotient of a converted \<^verbatim>\<open>int64\<close> by it is far from the ends of
  the exponent range, so the \<^verbatim>\<open>float64\<close> division is exact.
\<close>

definition bytes_to_gb :: "64 word \<Rightarrow> float64" where
  "bytes_to_gb b = float64_of_int64 b / (1024 * 1024 * 1024)"

definition digit :: "nat \<Rightarrow> char" where
  "digit d = ''0123456789'' ! d"

fun decimal :: "nat \<Rightarrow> string" where
  "decimal n = (if n < 10 then [digit n] else decimal (n div 10) @ [digit (n mod 10)])"

declare decimal.simps [simp del]

definition round_half_even :: "rat \<Rightarrow> nat" where
  "round_half_even q =
     (let f = \<lfloor>q\<rfloor>; d = q - of_int f
      in nat (if 1 / 2 < d \<or> (d = 1 / 2 \<and> odd f) then f + 1 else f))"

text \<open>
  The verb \<^verbatim>\<open>%.2f\<close> of \<^verbatim>\<open>fmt.Printf\<close> on a finite value: the sign, the integer digits, a
  point and two decimals, the exact value rounded to the nearest hundredth (a tie to the even
  one).
\<close>

definition fmt_2f :: "float64 \<Rightarrow> string" where
  "fmt_2f v =
     (let n = round_half_even (\<bar>v\<bar> * 100)
      in (if v < 0 then ''-'' else '''') @ decimal (n div 100) @ ''.'' @
         [digit (n mod 100 div 10), digit (n mod 10)])"

subsection \<open>\<^verbatim>\<open>parseFlags\<close> and \<^verbatim>\<open>connectToVSphere\<close>\<close>

text \<open>
  \<^verbatim>\<open>parseFlags\<close> (lines 329-349). Its argument holds the values of the flags after
  \<^verbatim>\<open>flag.Parse()\<close>, each string flag defaulting to its environment variable. \<open>Inl\<close> is the
  \<^verbatim>\<open>os.Exit(1)\<close> of line 345 with what was printed (\<^verbatim>\<open>flag.PrintDefaults\<close> writes to standard
  error).
\<close>

definition parseFlags :: "Config \<Rightarrow> string list + Config" where
  "parseFlags cfg =
     (if URL cfg = '''' \<or> Username cfg = '''' \<or> Password cfg = ''''
      then Inl [''Must specify vSphere URL, username, and password'' @ nl, ''Usage:'' @ nl]
      else Inr cfg)"

text \<open>\<^verbatim>\<open>connectToVSphere\<close> (lines 352-383): parse the URL, create the client, log in.\<close>

definition connectToVSphere :: "'w govmomi \<Rightarrow> Config \<Rightarrow> 'w \<Rightarrow> (err + unit) \<times> 'w" where
  "connectToVSphere lib cfg w =
     (case ParseURL lib (URL cfg) of
        Inl e \<Rightarrow> (Inl e, w)
      | Inr u \<Rightarrow>
         (case NewClient lib w u (Insecure cfg) of
            (Inl e, w1) \<Rightarrow> (Inl e, w1)
          | (Inr _, w1) \<Rightarrow>
             (case Login lib w1 (Username cfg) (Password cfg) of
                (Inl e, w2) \<Rightarrow> (Inl e, w2)
              | (Inr _, w2) \<Rightarrow> (Inr (), w2))))"

subsection \<open>One cluster: finding the storage pods (lines 144-186)\<close>

text \<open>Lines 151-166: \<^verbatim>\<open>*/datastores\<close>, then \<^verbatim>\<open>*/datastore\<close>, then the direct path.\<close>

definition datastoreFolders ::
  "'w govmomi \<Rightarrow> object_Datacenter \<Rightarrow> 'w \<Rightarrow> (err + object_Folder list) \<times> 'w" where
  "datastoreFolders lib dc w =
     (case FolderList lib w dc ''*/datastores'' of
        (Inr fs, w1) \<Rightarrow> (Inr fs, w1)
      | (Inl _, w1) \<Rightarrow>
         (case FolderList lib w1 dc ''*/datastore'' of
            (Inr fs, w2) \<Rightarrow> (Inr fs, w2)
          | (Inl _, w2) \<Rightarrow> FolderList lib w2 dc (dc_InventoryPath dc @ ''/datastore'')))"

text \<open>
  Lines 175-185, the children of one folder: a storage pod whose properties are retrieved is
  appended to \<^verbatim>\<open>storagePods\<close>, anything else is passed over. (\<^verbatim>\<open>podRefs\<close> is appended to and
  never read; it is left out.)
\<close>

fun children_loop ::
  "'w govmomi \<Rightarrow> object_Reference list \<Rightarrow> mo_StoragePod list \<Rightarrow> 'w \<Rightarrow> mo_StoragePod list \<times> 'w" where
  "children_loop lib [] storagePods w = (storagePods, w)"
| "children_loop lib (OtherObject _ # children) storagePods w =
     children_loop lib children storagePods w"
| "children_loop lib (StoragePod pod # children) storagePods w =
     (case RetrieveOne_StoragePod lib w pod of
        (Inl _, w1) \<Rightarrow> children_loop lib children storagePods w1
      | (Inr podInfo, w1) \<Rightarrow> children_loop lib children (storagePods @ [podInfo]) w1)"

text \<open>Lines 169-186, the folders: one whose children cannot be listed is passed over.\<close>

fun folders_loop ::
  "'w govmomi \<Rightarrow> object_Folder list \<Rightarrow> mo_StoragePod list \<Rightarrow> 'w \<Rightarrow> mo_StoragePod list \<times> 'w" where
  "folders_loop lib [] storagePods w = (storagePods, w)"
| "folders_loop lib (dsFolder # fs) storagePods w =
     (case Children lib w dsFolder of
        (Inl _, w1) \<Rightarrow> folders_loop lib fs storagePods w1
      | (Inr children, w1) \<Rightarrow>
         (case children_loop lib children storagePods w1 of
            (storagePods', w2) \<Rightarrow> folders_loop lib fs storagePods' w2))"

subsection \<open>One cluster: the report (lines 198-310)\<close>

text \<open>Lines 199 and 214-216: \<^verbatim>\<open>datastoreMap[ds.Reference().Value] = ds\<close>, a later entry
  replacing an earlier one with the same key.\<close>

definition datastoreMap :: "mo_Datastore list \<Rightarrow> (string \<rightharpoonup> mo_Datastore)" where
  "datastoreMap datastores =
     foldl (\<lambda>m ds. m(Value (ds_Reference ds) \<mapsto> ds)) Map.empty datastores"

text \<open>What is appended in JSON mode and printed in text mode for one datastore
  (lines 241-253 and 292-304).\<close>

definition datastoreInfo :: "mo_Datastore \<Rightarrow> DatastoreInfo" where
  "datastoreInfo ds =
     (let capacity = bytes_to_gb (ds_Capacity ds);
          freeSpace = bytes_to_gb (ds_FreeSpace ds)
      in \<lparr>di_Name = ds_Name ds, di_Capacity = capacity, di_FreeSpace = freeSpace\<rparr>)"

definition datastoreLine :: "mo_Datastore \<Rightarrow> string" where
  "datastoreLine ds =
     (let capacity = bytes_to_gb (ds_Capacity ds);
          freeSpace = bytes_to_gb (ds_FreeSpace ds)
      in ''    - '' @ ds_Name ds @ '' (Capacity: '' @ fmt_2f capacity @ '' GB, Free: '' @
         fmt_2f freeSpace @ '' GB)'' @ nl)"

text \<open>
  Lines 236-255, the members of one pod. The state is \<^verbatim>\<open>podHasDatastoresInCluster\<close>,
  \<^verbatim>\<open>dsClusterInfo.Datastores\<close> and standard output.
\<close>

fun childEntity_loop ::
  "bool \<Rightarrow> (string \<rightharpoonup> mo_Datastore) \<Rightarrow> ManagedObjectReference list \<Rightarrow>
   bool \<times> DatastoreInfo list \<times> string list \<Rightarrow> bool \<times> DatastoreInfo list \<times> string list" where
  "childEntity_loop json m [] st = st"
| "childEntity_loop json m (childRef # refs) (has, dss, out) =
     (case m (Value childRef) of
        None \<Rightarrow> childEntity_loop json m refs (has, dss, out)
      | Some ds \<Rightarrow>
          if json then childEntity_loop json m refs (True, dss @ [datastoreInfo ds], out)
          else childEntity_loop json m refs (True, dss, out @ [datastoreLine ds]))"

text \<open>Lines 224-266, the pods. The state is \<^verbatim>\<open>clusterInfo.DatastoreClusters\<close> and standard
  output.\<close>

fun storagePods_loop ::
  "bool \<Rightarrow> (string \<rightharpoonup> mo_Datastore) \<Rightarrow> mo_StoragePod list \<Rightarrow>
   DatastoreClusterInfo list \<times> string list \<Rightarrow> DatastoreClusterInfo list \<times> string list" where
  "storagePods_loop json m [] st = st"
| "storagePods_loop json m (pod # pods) (dcs, out) =
     (let out1 = (if json then out else out @ [''  Datastore Cluster: '' @ sp_Name pod @ nl])
      in case childEntity_loop json m (sp_ChildEntity pod) (False, [], out1) of
           (has, dss, out2) \<Rightarrow>
             (let out3 = (if \<not> has \<and> \<not> json
                          then out2 @ [''    No datastores from this cluster in this datastore cluster'' @ nl]
                          else out2);
                  dcs' = (if json \<and> 0 < length dss
                          then dcs @ [\<lparr>dci_Name = sp_Name pod, dci_Datastores = dss\<rparr>]
                          else dcs)
              in storagePods_loop json m pods (dcs', out3)))"

text \<open>Lines 218-267.\<close>

definition displayDatastoreClusters ::
  "bool \<Rightarrow> (string \<rightharpoonup> mo_Datastore) \<Rightarrow> mo_StoragePod list \<Rightarrow>
   DatastoreClusterInfo list \<times> string list \<Rightarrow> DatastoreClusterInfo list \<times> string list" where
  "displayDatastoreClusters json m storagePods st =
     (if length storagePods = 0
      then (if \<not> json
            then (fst st, snd st @ [''  No datastore clusters found for this cluster'' @ nl])
            else st)
      else storagePods_loop json m storagePods st)"

text \<open>Lines 277-288: does some pod have a member with the reference value of \<open>ds\<close>?\<close>

definition belongsToStoragePod :: "mo_StoragePod list \<Rightarrow> mo_Datastore \<Rightarrow> bool" where
  "belongsToStoragePod storagePods ds =
     list_ex (\<lambda>pod. list_ex (\<lambda>childRef. Value childRef = Value (ds_Reference ds))
       (sp_ChildEntity pod)) storagePods"

text \<open>
  Lines 275-306, the standalone datastores. The state is \<^verbatim>\<open>standaloneDsFound\<close>,
  \<^verbatim>\<open>clusterInfo.StandaloneDatastores\<close> and standard output.
\<close>

fun standalone_loop ::
  "bool \<Rightarrow> mo_StoragePod list \<Rightarrow> mo_Datastore list \<Rightarrow>
   bool \<times> DatastoreInfo list \<times> string list \<Rightarrow> bool \<times> DatastoreInfo list \<times> string list" where
  "standalone_loop json storagePods [] st = st"
| "standalone_loop json storagePods (ds # datastores) (found, sds, out) =
     (if \<not> belongsToStoragePod storagePods ds
      then (if json
            then standalone_loop json storagePods datastores (True, sds @ [datastoreInfo ds], out)
            else standalone_loop json storagePods datastores (True, sds, out @ [datastoreLine ds]))
      else standalone_loop json storagePods datastores (found, sds, out))"

text \<open>
  Lines 198-310: the report of one cluster from its storage pods and its retrieved
  datastores. \<open>clusterInfo\<close> is the value set up in lines 134-138.
\<close>

definition reportCluster ::
  "bool \<Rightarrow> mo_StoragePod list \<Rightarrow> mo_Datastore list \<Rightarrow> ClusterInfo \<times> string list \<Rightarrow>
   ClusterInfo \<times> string list" where
  "reportCluster json storagePods datastores st =
     (case st of (clusterInfo, out) \<Rightarrow>
        (case displayDatastoreClusters json (datastoreMap datastores) storagePods
                (ci_DatastoreClusters clusterInfo, out) of
           (dcs, out1) \<Rightarrow>
             (let out2 = (if \<not> json then out1 @ [''  Standalone Datastores:'' @ nl] else out1)
              in case standalone_loop json storagePods datastores
                        (False, ci_StandaloneDatastores clusterInfo, out2) of
                   (standaloneDsFound, sds, out3) \<Rightarrow>
                     (clusterInfo\<lparr>ci_DatastoreClusters := dcs, ci_StandaloneDatastores := sds\<rparr>,
                      if \<not> standaloneDsFound \<and> \<not> json
                      then out3 @ [''    No standalone datastores found'' @ nl]
                      else out3))))"

subsection \<open>The loop over the clusters (lines 133-315)\<close>

text \<open>
  The body for one cluster. The state is \<^verbatim>\<open>infraInfo\<close>, standard output and the world. Every
  \<^verbatim>\<open>continue\<close> of the source returns the state reached so far.
\<close>

definition cluster_body ::
  "'w govmomi \<Rightarrow> Config \<Rightarrow> object_Datacenter \<Rightarrow> object_ClusterComputeResource \<Rightarrow>
   InfrastructureInfo \<times> string list \<times> 'w \<Rightarrow> InfrastructureInfo \<times> string list \<times> 'w" where
  "cluster_body lib cfg dc cluster st =
     (case st of (infraInfo, out, w) \<Rightarrow>
       (let json = OutputJSON cfg;
            clusterInfo = (if json
               then \<lparr>ci_Name = ccr_Name cluster, ci_DatastoreClusters = [],
                     ci_StandaloneDatastores = []\<rparr>
               else \<lparr>ci_Name = '''', ci_DatastoreClusters = [], ci_StandaloneDatastores = []\<rparr>);
            out1 = (if json then out
               else out @ [nl @ ''Cluster: '' @ ccr_Name cluster @ nl,
                           replicate (length (ccr_Name cluster) + 9) (CHR ''-'') @ nl])
        in case datastoreFolders lib dc w of
             (Inl e, w1) \<Rightarrow>
               (infraInfo,
                if \<not> json then out1 @ [''  Error finding datastore folders: '' @ e @ nl] else out1,
                w1)
           | (Inr folders, w1) \<Rightarrow>
              (case folders_loop lib folders [] w1 of (storagePods, w2) \<Rightarrow>
                (case RetrieveOne_Cluster lib w2 (ccr_Reference cluster) of
                   (Inl e, w3) \<Rightarrow>
                     (infraInfo,
                      if \<not> json then out1 @ [''  Error getting cluster details: '' @ e @ nl] else out1,
                      w3)
                 | (Inr dsList, w3) \<Rightarrow>
                    (case Retrieve lib w3 dsList of
                       (Inl e, w4) \<Rightarrow>
                         (infraInfo,
                          if \<not> json
                          then out1 @ [''  Error retrieving datastore details: '' @ e @ nl]
                          else out1,
                          w4)
                     | (Inr datastores, w4) \<Rightarrow>
                        (case reportCluster json storagePods datastores (clusterInfo, out1) of
                           (clusterInfo', out2) \<Rightarrow>
                             (if json
                              then infraInfo\<lparr>ii_Clusters := ii_Clusters infraInfo @ [clusterInfo']\<rparr>
                              else infraInfo,
                              out2, w4)))))))"

fun clusters_loop ::
  "'w govmomi \<Rightarrow> Config \<Rightarrow> object_Datacenter \<Rightarrow> object_ClusterComputeResource list \<Rightarrow>
   InfrastructureInfo \<times> string list \<times> 'w \<Rightarrow> InfrastructureInfo \<times> string list \<times> 'w" where
  "clusters_loop lib cfg dc [] st = st"
| "clusters_loop lib cfg dc (cluster # clusters) st =
     clusters_loop lib cfg dc clusters (cluster_body lib cfg dc cluster st)"

subsection \<open>\<^verbatim>\<open>main\<close>\<close>

text \<open>Lines 85-104: no datacenter was resolved; every path ends in \<^verbatim>\<open>os.Exit(1)\<close>.\<close>

definition listDatacentersAndExit :: "'w govmomi \<Rightarrow> 'w \<Rightarrow> Run \<times> 'w" where
  "listDatacentersAndExit lib w =
     (case DatacenterList lib w ''*'' of
        (Inl e, w1) \<Rightarrow> (\<lparr>stdout = [''Error: '' @ e @ nl], exit_code = 1\<rparr>, w1)
      | (Inr dcs, w1) \<Rightarrow>
          if length dcs = 0
          then (\<lparr>stdout = [''No datacenters found. Please check your vSphere environment.'' @ nl],
                 exit_code = 1\<rparr>, w1)
          else (\<lparr>stdout = [''Available datacenters:'' @ nl] @
                          map (\<lambda>dc. ''- '' @ dc_Name dc @ nl) dcs @
                          [nl @ ''Please specify a datacenter using the -datacenter flag.'' @ nl],
                 exit_code = 1\<rparr>, w1))"

text \<open>Lines 106-326: the run once the datacenter is known. Returning from \<^verbatim>\<open>main\<close> is exit
  code 0, after the deferred \<^verbatim>\<open>client.Logout\<close>; \<^verbatim>\<open>os.Exit\<close> does not run it.\<close>

definition report :: "'w govmomi \<Rightarrow> Config \<Rightarrow> object_Datacenter \<Rightarrow> 'w \<Rightarrow> Run \<times> 'w" where
  "report lib cfg dc w =
     (let out = (if \<not> OutputJSON cfg then [''Using datacenter: '' @ dc_Name dc @ nl] else [])
      in case ClusterComputeResourceList lib w dc ''*'' of
           (Inl e, w1) \<Rightarrow>
             (\<lparr>stdout = out @ [''Error getting clusters: '' @ e @ nl], exit_code = 1\<rparr>, w1)
         | (Inr clusters, w1) \<Rightarrow>
             if length clusters = 0
             then (\<lparr>stdout = out @ [''No clusters found in the selected datacenter.'' @ nl],
                    exit_code = 0\<rparr>, w1)
             else
               (let infraInfo = (if OutputJSON cfg
                      then \<lparr>ii_Datacenter = dc_Name dc, ii_Clusters = []\<rparr>
                      else \<lparr>ii_Datacenter = '''', ii_Clusters = []\<rparr>)
                in case clusters_loop lib cfg dc clusters (infraInfo, out, w1) of
                     (infraInfo', out1, w2) \<Rightarrow>
                       if OutputJSON cfg
                       then (case MarshalIndent lib infraInfo' of
                               Inl e \<Rightarrow>
                                 (\<lparr>stdout = out1 @ [''Error generating JSON output: '' @ e @ nl],
                                   exit_code = 1\<rparr>, w2)
                             | Inr jsonOutput \<Rightarrow>
                                 (\<lparr>stdout = out1 @ [jsonOutput @ nl], exit_code = 0\<rparr>,
                                  Logout lib w2))
                       else (\<lparr>stdout = out1, exit_code = 0\<rparr>, Logout lib w2)))"

text \<open>Lines 77-83: the named datacenter, or the default one.\<close>

definition findDatacenter ::
  "'w govmomi \<Rightarrow> Config \<Rightarrow> 'w \<Rightarrow> (err + object_Datacenter) \<times> 'w" where
  "findDatacenter lib cfg w =
     (if Datacenter cfg \<noteq> '''' then finder_Datacenter lib w (Datacenter cfg)
      else DefaultDatacenter lib w)"

text \<open>\<^verbatim>\<open>main\<close> (lines 59-326), from the values of the flags.\<close>

definition main :: "'w govmomi \<Rightarrow> Config \<Rightarrow> 'w \<Rightarrow> Run \<times> 'w" where
  "main lib flags w =
     (case parseFlags flags of
        Inl out \<Rightarrow> (\<lparr>stdout = out, exit_code = 1\<rparr>, w)
      | Inr cfg \<Rightarrow>
         (case connectToVSphere lib cfg w of
            (Inl e, w1) \<Rightarrow>
              (\<lparr>stdout = [''Error connecting to vSphere: '' @ e @ nl], exit_code = 1\<rparr>, w1)
          | (Inr _, w1) \<Rightarrow>
             (case findDatacenter lib cfg w1 of
                (Inl _, w2) \<Rightarrow> listDatacentersAndExit lib w2
              | (Inr dc, w2) \<Rightarrow> report lib cfg dc w2)))"

subsection \<open>Which datastores a cluster's report lists\<close>

text \<open>
  The report carries names and sizes, not references. To say which datastore a listed entry
  stands for, the two selections the loops make are named: the datastores that the lookup of
  line 237 finds for the members of a pod, in the order of its member list, and the
  retrieved datastores that the test of lines 277-290 lets through.
\<close>

definition reachableMembers :: "(string \<rightharpoonup> mo_Datastore) \<Rightarrow> mo_StoragePod \<Rightarrow> mo_Datastore list" where
  "reachableMembers m pod = List.map_filter (\<lambda>childRef. m (Value childRef)) (sp_ChildEntity pod)"

definition standaloneDatastores :: "mo_StoragePod list \<Rightarrow> mo_Datastore list \<Rightarrow> mo_Datastore list" where
  "standaloneDatastores storagePods datastores =
     filter (\<lambda>ds. \<not> belongsToStoragePod storagePods ds) datastores"

definition refValue :: "mo_Datastore \<Rightarrow> string" where
  "refValue ds = Value (ds_Reference ds)"

subsection \<open>The folder lookup in the words of the specification\<close>

text \<open>
  Following the specification's words, not the source: \<^verbatim>\<open>listDatastoreFolders\<close> ``must try at
  least two relative path conventions before falling back to a direct inventory-path
  construction; first non-error, non-empty result is used''.
\<close>

definition nonerror_nonempty :: "err + object_Folder list \<Rightarrow> bool" where
  "nonerror_nonempty r = (case r of Inl _ \<Rightarrow> False | Inr fs \<Rightarrow> fs \<noteq> [])"

definition spec_listDatastoreFolders ::
  "'w govmomi \<Rightarrow> object_Datacenter \<Rightarrow> 'w \<Rightarrow> (err + object_Folder list) \<times> 'w" where
  "spec_listDatastoreFolders lib dc w =
     (case FolderList lib w dc ''*/datastores'' of
        (r1, w1) \<Rightarrow>
          if nonerror_nonempty r1 then (r1, w1)
          else (case FolderList lib w1 dc ''*/datastore'' of
                  (r2, w2) \<Rightarrow>
                    if nonerror_nonempty r2 then (r2, w2)
                    else FolderList lib w2 dc (dc_InventoryPath dc @ ''/datastore'')))"

subsection \<open>The finder's answers\<close>

text \<open>
  The list calls of govmomi's finder answer a search that finds nothing with a
  \<^verbatim>\<open>NotFoundError\<close> (\<^verbatim>\<open>cluster '*' not found\<close>), never with an empty list and no error. The
  record above does not say so; where a statement is about what the program does against the
  real finder, this is its hypothesis.
\<close>

definition finder_contract :: "'w govmomi \<Rightarrow> bool" where
  "finder_contract lib \<longleftrightarrow>
     (\<forall>w p dcs w'. DatacenterList lib w p = (Inr dcs, w') \<longrightarrow> dcs \<noteq> []) \<and>
     (\<forall>w dc p clusters w'.
        ClusterComputeResourceList lib w dc p = (Inr clusters, w') \<longrightarrow> clusters \<noteq> []) \<and>
     (\<forall>w dc p folders w'. FolderList lib w dc p = (Inr folders, w') \<longrightarrow> folders \<noteq> [])"

subsection \<open>An unchanged inventory\<close>

text \<open>
  What ``an unchanged inventory snapshot'' means for two runs: the answer of every remote call
  depends on its arguments only, not on the state of the world in which it is made.
  (\<^verbatim>\<open>soap.ParseURL\<close> and \<^verbatim>\<open>json.MarshalIndent\<close> are functions of their arguments in the
  model already.)
\<close>

definition unchanged_snapshot :: "'w govmomi \<Rightarrow> bool" where
  "unchanged_snapshot lib \<longleftrightarrow>
     (\<forall>w w' u i. fst (NewClient lib w u i) = fst (NewClient lib w' u i)) \<and>
     (\<forall>w w' u p. fst (Login lib w u p) = fst (Login lib w' u p)) \<and>
     (\<forall>w w' n. fst (finder_Datacenter lib w n) = fst (finder_Datacenter lib w' n)) \<and>
     (\<forall>w w'. fst (DefaultDatacenter lib w) = fst (DefaultDatacenter lib w')) \<and>
     (\<forall>w w' p. fst (DatacenterList lib w p) = fst (DatacenterList lib w' p)) \<and>
     (\<forall>w w' dc p. fst (ClusterComputeResourceList lib w dc p) =
                   fst (ClusterComputeResourceList lib w' dc p)) \<and>
     (\<forall>w w' dc p. fst (FolderList lib w dc p) = fst (FolderList lib w' dc p)) \<and>
     (\<forall>w w' f. fst (Children lib w f) = fst (Children lib w' f)) \<and>
     (\<forall>w w' r. fst (RetrieveOne_StoragePod lib w r) = fst (RetrieveOne_StoragePod lib w' r)) \<and>
     (\<forall>w w' r. fst (RetrieveOne_Cluster lib w r) = fst (RetrieveOne_Cluster lib w' r)) \<and>
     (\<forall>w w' rs. fst (Retrieve lib w rs) = fst (Retrieve lib w' rs))"

section \<open>Example inventory\<close>

text \<open>The scenario of the README: four datastores, two datastore clusters holding three of
  them, a third datastore cluster with no member the cluster reaches.\<close>

definition ex_ref :: "string \<Rightarrow> ManagedObjectReference" where
  "ex_ref v = \<lparr>Type = ''Datastore'', Value = v\<rparr>"

definition ex_datastore :: "string \<Rightarrow> string \<Rightarrow> 64 word \<Rightarrow> 64 word \<Rightarrow> mo_Datastore" where
  "ex_datastore v n c f = \<lparr>ds_Reference = ex_ref v, ds_Name = n, ds_Capacity = c, ds_FreeSpace = f\<rparr>"

definition ex_datastores :: "mo_Datastore list" where
  "ex_datastores =
     [ex_datastore ''datastore-1'' ''Datastore01'' 2199023255552 1099511627776,
      ex_datastore ''datastore-2'' ''Datastore02'' 4398046511104 2199023255552,
      ex_datastore ''datastore-3'' ''Datastore03'' 1099511627776 549755813888,
      ex_datastore ''datastore-4'' ''Datastore04'' 8796093022208 4398046511104]"

definition ex_pod :: "string \<Rightarrow> string list \<Rightarrow> mo_StoragePod" where
  "ex_pod n vs = \<lparr>sp_Name = n, sp_ChildEntity = map ex_ref vs\<rparr>"

definition ex_pods :: "mo_StoragePod list" where
  "ex_pods =
     [ex_pod ''StoragePod01'' [''datastore-1'', ''datastore-2''],
      ex_pod ''StoragePod02'' [''datastore-3'', ''datastore-9''],
      ex_pod ''StoragePod03'' [''datastore-8'']]"

text \<open>An inventory that is not well formed: two datastore clusters name the same datastore.\<close>

definition ex_shared_pods :: "mo_StoragePod list" where
  "ex_shared_pods =
     [ex_pod ''StoragePod01'' [''datastore-1''], ex_pod ''StoragePod02'' [''datastore-1'']]"

text \<open>
  A vSphere for the examples. The world is the number of remote calls made so far. The
  datacenter \<^verbatim>\<open>DC01\<close> has one cluster, which reaches the four datastores; \<^verbatim>\<open>DC02\<close> has no
  cluster, so that the finder answers the search for its clusters with its
  \<^verbatim>\<open>NotFoundError\<close>; only the folder path \<^verbatim>\<open>*/datastore\<close> is found. \<open>ex_marshal\<close> stands in for
  \<^verbatim>\<open>json.MarshalIndent\<close>: it writes the datacenter and the names of the clusters.
\<close>

definition ex_dc :: "string \<Rightarrow> object_Datacenter" where
  "ex_dc n = \<lparr>dc_Name = n, dc_InventoryPath = ''/'' @ n\<rparr>"

definition ex_cluster :: "string \<Rightarrow> string \<Rightarrow> object_ClusterComputeResource" where
  "ex_cluster n v =
     \<lparr>ccr_Name = n, ccr_Reference = \<lparr>Type = ''ClusterComputeResource'', Value = v\<rparr>\<rparr>"

definition ex_folder :: object_Folder where
  "ex_folder = \<lparr>Type = ''Folder'', Value = ''group-s1''\<rparr>"

definition ex_marshal :: "InfrastructureInfo \<Rightarrow> err + string" where
  "ex_marshal info =
     Inr (ii_Datacenter info @ concat (map (\<lambda>c. '' '' @ ci_Name c) (ii_Clusters info)))"

definition ex_lib :: "nat govmomi" where
  "ex_lib =
     \<lparr>ParseURL = (\<lambda>u. if u = ''::'' then Inl ''missing protocol scheme'' else Inr u),
      NewClient = (\<lambda>w u insecure. (Inr (), Suc w)),
      Login = (\<lambda>w user password.
        (if password = ''secret'' then Inr () else Inl ''incorrect user name or password'',
         Suc w)),
      Logout = Suc,
      finder_Datacenter = (\<lambda>w name.
        (if name = ''DC01'' \<or> name = ''DC02'' then Inr (ex_dc name)
         else Inl ''datacenter not found'', Suc w)),
      DefaultDatacenter = (\<lambda>w.
        (Inl ''default datacenter resolves to multiple instances'', Suc w)),
      DatacenterList = (\<lambda>w p. (Inr [ex_dc ''DC01'', ex_dc ''DC02''], Suc w)),
      ClusterComputeResourceList = (\<lambda>w dc p.
        (if dc_Name dc = ''DC01'' then Inr [ex_cluster ''Cluster01'' ''domain-c1'']
         else Inl ''cluster '*' not found'', Suc w)),
      FolderList = (\<lambda>w dc p.
        (if p = ''*/datastore'' then Inr [ex_folder] else Inl ''folder not found'', Suc w)),
      Children = (\<lambda>w folder.
        (Inr [StoragePod \<lparr>Type = ''StoragePod'', Value = ''group-p1''\<rparr>,
              OtherObject (ex_ref ''datastore-4''),
              StoragePod \<lparr>Type = ''StoragePod'', Value = ''group-p2''\<rparr>,
              StoragePod \<lparr>Type = ''StoragePod'', Value = ''group-p3''\<rparr>], Suc w)),
      RetrieveOne_StoragePod = (\<lambda>w pod.
        (if Value pod = ''group-p1'' then Inr (ex_pod ''StoragePod01'' [''datastore-1'', ''datastore-2''])
         else if Value pod = ''group-p2'' then Inr (ex_pod ''StoragePod02'' [''datastore-3'', ''datastore-9''])
         else if Value pod = ''group-p3'' then Inr (ex_pod ''StoragePod03'' [''datastore-8''])
         else Inl ''managed object not found'', Suc w)),
      RetrieveOne_Cluster = (\<lambda>w cluster. (Inr (map ds_Reference ex_datastores), Suc w)),
      Retrieve = (\<lambda>w refs.
        (if refs = [] then Inl ''object references is empty''
         else Inr (filter (\<lambda>ds. ds_Reference ds \<in> set refs) ex_datastores), Suc w)),
      MarshalIndent = ex_marshal\<rparr>"

definition ex_flags :: Config where
  "ex_flags = \<lparr>URL = ''https://vcenter.example.com/sdk'', Username = ''admin'',
     Password = ''secret'', Insecure = True, Datacenter = ''DC01'', OutputJSON = False\<rparr>"

definition ex_json_flags :: Config where
  "ex_json_flags = ex_flags\<lparr>OutputJSON := True\<rparr>"

text \<open>
  The same vSphere on a bad day, with four clusters: until the seventh remote call no folder
  path is found, the details of \<^verbatim>\<open>Cluster02\<close> cannot be read, and \<^verbatim>\<open>Cluster03\<close> has no
  datastore, so that there is nothing to retrieve.
\<close>

definition ex_flaky :: "nat govmomi" where
  "ex_flaky = ex_lib
     \<lparr>ClusterComputeResourceList := (\<lambda>w dc p.
        (Inr [ex_cluster ''Cluster01'' ''domain-c1'', ex_cluster ''Cluster02'' ''domain-c2'',
              ex_cluster ''Cluster03'' ''domain-c3'', ex_cluster ''Cluster04'' ''domain-c4''],
         Suc w)),
      FolderList := (\<lambda>w dc p.
        (if w < 7 then Inl ''connection reset''
         else if p = ''*/datastore'' then Inr [ex_folder] else Inl ''folder not found'', Suc w)),
      RetrieveOne_Cluster := (\<lambda>w cluster.
        (if Value cluster = ''domain-c2'' then Inl ''permission denied''
         else if Value cluster = ''domain-c3'' then Inr []
         else Inr (map ds_Reference ex_datastores), Suc w))\<rparr>"

text \<open>And one where no folder path is ever found.\<close>

definition ex_no_folders :: "nat govmomi" where
  "ex_no_folders = ex_lib\<lparr>FolderList := (\<lambda>w dc p. (Inl ''folder not found'', Suc w))\<rparr>"

text \<open>And one that is not govmomi's finder: the first folder path is found and holds no
  folder.\<close>

definition ex_empty_first :: "nat govmomi" where
  "ex_empty_first = ex_lib
     \<lparr>FolderList := (\<lambda>w dc p. (if p = ''*/datastores'' then Inr [] else Inr [ex_folder], Suc w))\<rparr>"

section \<open>Numbers\<close>

lemma bit_length_le: "a < 2 ^ k \<Longrightarrow> bit_length a \<le> k"
proof (induction a arbitrary: k rule: bit_length.induct)
  case (1 n)
  show ?case
  proof (cases "n = 0")
    case True
    then show ?thesis by (simp add: bit_length.simps)
  next
    case False
    with "1.prems" obtain j where k: "k = Suc j" by (cases k) auto
    from "1.prems" k have "n div 2 < 2 ^ j" by auto
    from "1.IH" [OF False this] show ?thesis using False k
      by (subst bit_length.simps) simp
  qed
qed

lemma round_ties_even_0: "round_ties_even a 0 = a"
  by (simp add: round_ties_even_def)

lemma bit_length_pow: "bit_length (2 ^ k) = Suc k"
  by (induction k) (simp_all add: bit_length.simps)

lemma float64_exact_nat:
  assumes "a \<le> 2 ^ 53"
  shows "round_ties_even a (bit_length a - 53) * 2 ^ (bit_length a - 53) = a"
proof (cases "a = 2 ^ 53")
  case True
  have "bit_length a - 53 = 1" unfolding True bit_length_pow by simp
  then show ?thesis unfolding True
    by (simp add: round_ties_even_def)
next
  case False
  with assms have "a < 2 ^ 53" by simp
  then have "bit_length a \<le> 53" by (rule bit_length_le)
  then show ?thesis by (simp add: round_ties_even_0)
qed

lemma float64_of_int64_exact:
  assumes "\<bar>sint b\<bar> \<le> 2 ^ 53"
  shows "float64_of_int64 b = of_int (sint b)"
proof -
  define a where "a = nat \<bar>sint b\<bar>"
  have "a \<le> 2 ^ 53" using assms by (simp add: a_def nat_le_iff)
  from float64_exact_nat [OF this]
  have m: "round_ties_even a (bit_length a - 53) * 2 ^ (bit_length a - 53) = a" .
  have "float64_of_int64 b = (if sint b < 0 then - of_nat a else of_nat a)"
    unfolding float64_of_int64_def Let_def a_def [symmetric] m ..
  also have "\<dots> = of_int (sint b)"
    by (simp add: a_def)
  finally show ?thesis .
qed

lemma fmt_2f_1: "fmt_2f 1 = ''1.00''"
  by (simp add: fmt_2f_def round_half_even_def decimal.simps digit_def)

lemma fmt_2f_examples:
  "fmt_2f 2048 = ''2048.00''" "fmt_2f 1024 = ''1024.00''" "fmt_2f 4096 = ''4096.00''"
  "fmt_2f 512 = ''512.00''" "fmt_2f 8192 = ''8192.00''"
  by (simp_all add: fmt_2f_def round_half_even_def decimal.simps digit_def)

text \<open>
  C5. Sizes are converted from bytes to gibibytes by dividing by \<open>1024 ^ 3\<close>: up to \<open>2 ^ 53\<close>
  bytes in magnitude the value is exactly the quotient, 1,073,741,824 bytes are exactly 1 (and
  not the 1.073741824 of a division by \<open>1000 ^ 3\<close>), which JSON mode stores as 1 and text mode
  prints as \<^verbatim>\<open>1.00 GB\<close>.
\<close>

theorem C5_binary_gigabytes:
  "(\<bar>sint b\<bar> \<le> 2 ^ 53 \<longrightarrow> bytes_to_gb b = of_int (sint b) / 1024 ^ 3) \<and>
   bytes_to_gb 1073741824 = 1 \<and>
   bytes_to_gb 1073741824 \<noteq> 1073741824 / 1000 ^ 3 \<and>
   datastoreInfo \<lparr>ds_Reference = r, ds_Name = n, ds_Capacity = 1073741824,
                  ds_FreeSpace = 1073741824\<rparr> =
     \<lparr>di_Name = n, di_Capacity = 1, di_FreeSpace = 1\<rparr> \<and>
   datastoreLine \<lparr>ds_Reference = r, ds_Name = n, ds_Capacity = 1073741824,
                  ds_FreeSpace = 1073741824\<rparr> =
     ''    - '' @ n @ '' (Capacity: 1.00 GB, Free: 1.00 GB)'' @ nl"
proof -
  have exact: "bytes_to_gb c = of_int (sint c) / 1024 ^ 3" if "\<bar>sint c\<bar> \<le> 2 ^ 53" for c
    using float64_of_int64_exact [OF that] by (simp add: bytes_to_gb_def)
  have "\<bar>sint (1073741824 :: 64 word)\<bar> \<le> 2 ^ 53" by simp
  from exact [OF this] have one: "bytes_to_gb 1073741824 = 1" by simp
  have info: "datastoreInfo \<lparr>ds_Reference = r, ds_Name = n, ds_Capacity = 1073741824,
                  ds_FreeSpace = 1073741824\<rparr> =
     \<lparr>di_Name = n, di_Capacity = 1, di_FreeSpace = 1\<rparr>"
    by (simp add: datastoreInfo_def one)
  have line: "datastoreLine \<lparr>ds_Reference = r, ds_Name = n, ds_Capacity = 1073741824,
                  ds_FreeSpace = 1073741824\<rparr> =
     ''    - '' @ n @ '' (Capacity: 1.00 GB, Free: 1.00 GB)'' @ nl"
    by (simp add: datastoreLine_def one fmt_2f_1)
  have ne: "bytes_to_gb 1073741824 \<noteq> 1073741824 / 1000 ^ 3"
    unfolding one by simp
  from exact [of b] one ne info line show ?thesis by blast
qed

theorem C5_binary_gigabytes_witness:
  "\<bar>sint (2147483648 :: 64 word)\<bar> \<le> 2 ^ 53 \<and> bytes_to_gb 2147483648 = 2"
proof -
  have h: "\<bar>sint (2147483648 :: 64 word)\<bar> \<le> 2 ^ 53" by simp
  have d: "rat_of_int (sint (2147483648 :: 64 word)) / 1024 ^ 3 = 2" by simp
  from C5_binary_gigabytes [of 2147483648] h
  have "bytes_to_gb 2147483648 = rat_of_int (sint (2147483648 :: 64 word)) / 1024 ^ 3"
    by blast
  with h d show ?thesis by simp
qed

section \<open>The report of one cluster\<close>

lemma datastoreMap_Nil: "datastoreMap [] v = None"
  by (simp add: datastoreMap_def)

lemma datastoreMap_snoc:
  "datastoreMap (dss @ [ds]) v = (if v = refValue ds then Some ds else datastoreMap dss v)"
  by (simp add: datastoreMap_def refValue_def)

lemma datastoreMap_None_iff: "datastoreMap dss v = None \<longleftrightarrow> v \<notin> refValue ` set dss"
  by (induction dss rule: rev_induct) (auto simp: datastoreMap_snoc datastoreMap_Nil)

lemma datastoreMap_Some:
  "datastoreMap dss v = Some ds \<Longrightarrow> ds \<in> set dss \<and> refValue ds = v"
  by (induction dss rule: rev_induct) (auto simp: datastoreMap_snoc datastoreMap_Nil split: if_splits)

lemma datastoreMap_distinct:
  "distinct (map refValue dss) \<Longrightarrow> ds \<in> set dss \<Longrightarrow> datastoreMap dss (refValue ds) = Some ds"
proof (induction dss rule: rev_induct)
  case Nil
  then show ?case by simp
next
  case (snoc x xs)
  show ?case
  proof (cases "ds = x")
    case True
    then show ?thesis by (simp add: datastoreMap_snoc)
  next
    case False
    with snoc.prems have in_xs: "ds \<in> set xs" by simp
    then have "refValue ds \<in> refValue ` set xs" by (rule imageI)
    moreover from snoc.prems have "refValue x \<notin> refValue ` set xs" by simp
    ultimately have "refValue ds \<noteq> refValue x" by metis
    moreover from snoc.prems in_xs have "datastoreMap xs (refValue ds) = Some ds"
      by (intro snoc.IH) simp_all
    ultimately show ?thesis by (simp add: datastoreMap_snoc)
  qed
qed

lemma belongsToStoragePod_iff:
  "belongsToStoragePod pods ds \<longleftrightarrow>
     (\<exists>pod \<in> set pods. refValue ds \<in> Value ` set (sp_ChildEntity pod))"
  unfolding belongsToStoragePod_def list_ex_iff refValue_def image_iff by metis

lemma set_reachableMembers:
  "set (reachableMembers m pod) = {ds. \<exists>c \<in> set (sp_ChildEntity pod). m (Value c) = Some ds}"
  unfolding reachableMembers_def List.map_filter_def by force

lemma childEntity_loop_eq:
  "childEntity_loop json m refs (has, dss, out) =
     (has \<or> List.map_filter (\<lambda>c. m (Value c)) refs \<noteq> [],
      if json then dss @ map datastoreInfo (List.map_filter (\<lambda>c. m (Value c)) refs) else dss,
      if json then out else out @ map datastoreLine (List.map_filter (\<lambda>c. m (Value c)) refs))"
proof (induction refs arbitrary: has dss out)
  case Nil
  show ?case by simp
next
  case (Cons c refs)
  show ?case
    using Cons.IH by (cases json; cases "m (Value c)") simp_all
qed

lemma storagePods_loop_json:
  "storagePods_loop True m pods (dcs, out) =
     (dcs @ map (\<lambda>pod. \<lparr>dci_Name = sp_Name pod,
                        dci_Datastores = map datastoreInfo (reachableMembers m pod)\<rparr>)
              (filter (\<lambda>pod. reachableMembers m pod \<noteq> []) pods),
      out)"
proof (induction pods arbitrary: dcs out)
  case Nil
  show ?case by simp
next
  case (Cons pod pods)
  show ?case
    by (simp add: childEntity_loop_eq Cons.IH reachableMembers_def)
qed

lemma storagePods_loop_text:
  "storagePods_loop False m pods (dcs, out) =
     (dcs,
      out @ concat (map (\<lambda>pod. (''  Datastore Cluster: '' @ sp_Name pod @ nl) #
                  (if reachableMembers m pod = []
                   then [''    No datastores from this cluster in this datastore cluster'' @ nl]
                   else map datastoreLine (reachableMembers m pod))) pods))"
proof (induction pods arbitrary: dcs out)
  case Nil
  show ?case by simp
next
  case (Cons pod pods)
  show ?case
    by (simp add: childEntity_loop_eq Cons.IH reachableMembers_def)
qed

lemma standalone_loop_eq:
  "standalone_loop json pods datastores (found, sds, out) =
     (found \<or> standaloneDatastores pods datastores \<noteq> [],
      if json then sds @ map datastoreInfo (standaloneDatastores pods datastores) else sds,
      if json then out else out @ map datastoreLine (standaloneDatastores pods datastores))"
proof (induction datastores arbitrary: found sds out)
  case Nil
  show ?case by (simp add: standaloneDatastores_def)
next
  case (Cons ds datastores)
  show ?case
    using Cons.IH by (cases json) (simp_all add: standaloneDatastores_def)
qed

lemma reportCluster_json:
  "reportCluster True pods datastores (clusterInfo, out) =
     (clusterInfo\<lparr>
        ci_DatastoreClusters := ci_DatastoreClusters clusterInfo @
          map (\<lambda>pod. \<lparr>dci_Name = sp_Name pod,
                      dci_Datastores = map datastoreInfo (reachableMembers (datastoreMap datastores) pod)\<rparr>)
            (filter (\<lambda>pod. reachableMembers (datastoreMap datastores) pod \<noteq> []) pods),
        ci_StandaloneDatastores := ci_StandaloneDatastores clusterInfo @
          map datastoreInfo (standaloneDatastores pods datastores)\<rparr>,
      out)"
  by (cases pods)
     (simp_all add: reportCluster_def displayDatastoreClusters_def storagePods_loop_json
        standalone_loop_eq del: storagePods_loop.simps)

lemma reportCluster_text:
  "reportCluster False pods datastores (clusterInfo, out) =
     (clusterInfo,
      out @
      (if pods = [] then [''  No datastore clusters found for this cluster'' @ nl]
       else concat (map (\<lambda>pod. (''  Datastore Cluster: '' @ sp_Name pod @ nl) #
                  (if reachableMembers (datastoreMap datastores) pod = []
                   then [''    No datastores from this cluster in this datastore cluster'' @ nl]
                   else map datastoreLine (reachableMembers (datastoreMap datastores) pod))) pods)) @
      [''  Standalone Datastores:'' @ nl] @
      (if standaloneDatastores pods datastores = []
       then [''    No standalone datastores found'' @ nl]
       else map datastoreLine (standaloneDatastores pods datastores)))"
  by (cases pods)
     (simp_all add: reportCluster_def displayDatastoreClusters_def storagePods_loop_text
        standalone_loop_eq del: storagePods_loop.simps)

lemma concat_nonempty_buckets:
  "concat (map (\<lambda>x. f x) (filter (\<lambda>x. f x \<noteq> []) xs)) = concat (map f xs)"
  by (induction xs) simp_all

lemma grouped_refs:
  "refValue ` set (reachableMembers (datastoreMap datastores) pod) =
     Value ` set (sp_ChildEntity pod) \<inter> refValue ` set datastores"
proof (rule set_eqI, rule iffI)
  fix v
  assume "v \<in> refValue ` set (reachableMembers (datastoreMap datastores) pod)"
  then obtain ds c where c: "c \<in> set (sp_ChildEntity pod)"
      and ds: "datastoreMap datastores (Value c) = Some ds" and v: "v = refValue ds"
    by (auto simp: set_reachableMembers)
  from datastoreMap_Some [OF ds] have "ds \<in> set datastores" and "refValue ds = Value c"
    by simp_all
  with v c have "v \<in> Value ` set (sp_ChildEntity pod)" and "v \<in> refValue ` set datastores"
    by (metis imageI)+
  then show "v \<in> Value ` set (sp_ChildEntity pod) \<inter> refValue ` set datastores"
    by simp
next
  fix v
  assume "v \<in> Value ` set (sp_ChildEntity pod) \<inter> refValue ` set datastores"
  then obtain c where c: "c \<in> set (sp_ChildEntity pod)" and v: "v = Value c"
      and "v \<in> refValue ` set datastores"
    by auto
  then have "datastoreMap datastores (Value c) \<noteq> None"
    by (simp add: datastoreMap_None_iff)
  then obtain ds where ds: "datastoreMap datastores (Value c) = Some ds" by auto
  from datastoreMap_Some [OF ds] v have "v = refValue ds" by simp
  moreover from c ds have "ds \<in> set (reachableMembers (datastoreMap datastores) pod)"
    unfolding set_reachableMembers by blast
  ultimately show "v \<in> refValue ` set (reachableMembers (datastoreMap datastores) pod)"
    by (metis imageI)
qed

lemma standalone_refs:
  "refValue ` set (standaloneDatastores pods datastores) =
     refValue ` set datastores - (\<Union>pod \<in> set pods. Value ` set (sp_ChildEntity pod))"
  by (auto simp: standaloneDatastores_def belongsToStoragePod_iff)

lemma bytes_to_gb_exact:
  "\<bar>sint b\<bar> \<le> 2 ^ 53 \<Longrightarrow> bytes_to_gb b = of_int (sint b) / 1024 ^ 3"
  using float64_of_int64_exact [of b] by (simp add: bytes_to_gb_def)

lemmas ex_defs = ex_pods_def ex_pod_def ex_datastores_def ex_datastore_def ex_ref_def

text \<open>
  C1. For every cluster whose datastores were retrieved: what JSON mode stores under the
  datastore clusters and as standalone, and what text mode prints, are the entries of the
  datastores \<open>grouped\<close> and \<open>standalone\<close>; the reference values of the two together are
  exactly those of the retrieved datastores, and no reference value is in both.
\<close>

theorem C1_partition:
  "let m = datastoreMap datastores;
       grouped = concat (map (reachableMembers m) storagePods);
       standalone = standaloneDatastores storagePods datastores;
       clusterInfo = fst (reportCluster True storagePods datastores
         (\<lparr>ci_Name = name, ci_DatastoreClusters = [], ci_StandaloneDatastores = []\<rparr>, out))
   in concat (map dci_Datastores (ci_DatastoreClusters clusterInfo)) = map datastoreInfo grouped \<and>
      ci_StandaloneDatastores clusterInfo = map datastoreInfo standalone \<and>
      snd (reportCluster False storagePods datastores (ci, out)) =
        out @
        (if storagePods = [] then [''  No datastore clusters found for this cluster'' @ nl]
         else concat (map (\<lambda>pod. (''  Datastore Cluster: '' @ sp_Name pod @ nl) #
                (if reachableMembers m pod = []
                 then [''    No datastores from this cluster in this datastore cluster'' @ nl]
                 else map datastoreLine (reachableMembers m pod))) storagePods)) @
        [''  Standalone Datastores:'' @ nl] @
        (if standalone = [] then [''    No standalone datastores found'' @ nl]
         else map datastoreLine standalone) \<and>
      refValue ` set grouped \<union> refValue ` set standalone = refValue ` set datastores \<and>
      refValue ` set grouped \<inter> refValue ` set standalone = {}"
proof -
  define m where "m = datastoreMap datastores"
  define grouped where "grouped = concat (map (reachableMembers m) storagePods)"
  define standalone where "standalone = standaloneDatastores storagePods datastores"
  define members where "members = (\<Union>pod \<in> set storagePods. Value ` set (sp_ChildEntity pod))"
  have g: "refValue ` set grouped = members \<inter> refValue ` set datastores"
    unfolding grouped_def members_def m_def
    by (simp add: image_UN grouped_refs)
  have s: "refValue ` set standalone = refValue ` set datastores - members"
    unfolding standalone_def members_def by (rule standalone_refs)
  have json1: "concat (map dci_Datastores (ci_DatastoreClusters (fst (reportCluster True
      storagePods datastores
      (\<lparr>ci_Name = name, ci_DatastoreClusters = [], ci_StandaloneDatastores = []\<rparr>, out))))) =
      map datastoreInfo grouped"
    unfolding grouped_def m_def
    by (simp add: reportCluster_json map_concat comp_def
        concat_nonempty_buckets [where f = "\<lambda>pod. map datastoreInfo
          (reachableMembers (datastoreMap datastores) pod)", simplified])
  have json2: "ci_StandaloneDatastores (fst (reportCluster True storagePods datastores
      (\<lparr>ci_Name = name, ci_DatastoreClusters = [], ci_StandaloneDatastores = []\<rparr>, out))) =
      map datastoreInfo standalone"
    unfolding standalone_def by (simp add: reportCluster_json)
  have tx: "snd (reportCluster False storagePods datastores (ci, out)) =
        out @
        (if storagePods = [] then [''  No datastore clusters found for this cluster'' @ nl]
         else concat (map (\<lambda>pod. (''  Datastore Cluster: '' @ sp_Name pod @ nl) #
                (if reachableMembers m pod = []
                 then [''    No datastores from this cluster in this datastore cluster'' @ nl]
                 else map datastoreLine (reachableMembers m pod))) storagePods)) @
        [''  Standalone Datastores:'' @ nl] @
        (if standalone = [] then [''    No standalone datastores found'' @ nl]
         else map datastoreLine standalone)"
    unfolding standalone_def m_def by (simp only: reportCluster_text snd_conv)
  have u: "refValue ` set grouped \<union> refValue ` set standalone = refValue ` set datastores"
    unfolding g s by blast
  have d: "refValue ` set grouped \<inter> refValue ` set standalone = {}"
    unfolding g s by blast
  from json1 json2 tx u d show ?thesis
    unfolding Let_def m_def [symmetric] grouped_def [symmetric] standalone_def [symmetric]
    by (intro conjI)
qed

theorem C1_partition_witness:
  "fst (reportCluster True ex_pods ex_datastores
     (\<lparr>ci_Name = ''Cluster01'', ci_DatastoreClusters = [], ci_StandaloneDatastores = []\<rparr>, [])) =
   \<lparr>ci_Name = ''Cluster01'',
     ci_DatastoreClusters =
       [\<lparr>dci_Name = ''StoragePod01'',
          dci_Datastores = [\<lparr>di_Name = ''Datastore01'', di_Capacity = 2048, di_FreeSpace = 1024\<rparr>,
                            \<lparr>di_Name = ''Datastore02'', di_Capacity = 4096, di_FreeSpace = 2048\<rparr>]\<rparr>,
        \<lparr>dci_Name = ''StoragePod02'',
          dci_Datastores = [\<lparr>di_Name = ''Datastore03'', di_Capacity = 1024, di_FreeSpace = 512\<rparr>]\<rparr>],
     ci_StandaloneDatastores =
       [\<lparr>di_Name = ''Datastore04'', di_Capacity = 8192, di_FreeSpace = 4096\<rparr>]\<rparr> \<and>
   refValue ` set (concat (map (reachableMembers (datastoreMap ex_datastores)) ex_pods)) \<union>
   refValue ` set (standaloneDatastores ex_pods ex_datastores) =
     {''datastore-1'', ''datastore-2'', ''datastore-3'', ''datastore-4''} \<and>
   refValue ` set (concat (map (reachableMembers (datastoreMap ex_datastores)) ex_pods)) \<inter>
   refValue ` set (standaloneDatastores ex_pods ex_datastores) = {}"
proof -
  have run: "fst (reportCluster True ex_pods ex_datastores
     (\<lparr>ci_Name = ''Cluster01'', ci_DatastoreClusters = [], ci_StandaloneDatastores = []\<rparr>, [])) =
   \<lparr>ci_Name = ''Cluster01'',
     ci_DatastoreClusters =
       [\<lparr>dci_Name = ''StoragePod01'',
          dci_Datastores = [\<lparr>di_Name = ''Datastore01'', di_Capacity = 2048, di_FreeSpace = 1024\<rparr>,
                            \<lparr>di_Name = ''Datastore02'', di_Capacity = 4096, di_FreeSpace = 2048\<rparr>]\<rparr>,
        \<lparr>dci_Name = ''StoragePod02'',
          dci_Datastores = [\<lparr>di_Name = ''Datastore03'', di_Capacity = 1024, di_FreeSpace = 512\<rparr>]\<rparr>],
     ci_StandaloneDatastores =
       [\<lparr>di_Name = ''Datastore04'', di_Capacity = 8192, di_FreeSpace = 4096\<rparr>]\<rparr>"
    by (simp add: reportCluster_def displayDatastoreClusters_def ex_defs datastoreMap_def
        belongsToStoragePod_def datastoreInfo_def bytes_to_gb_exact)
  have all: "refValue ` set ex_datastores =
      {''datastore-1'', ''datastore-2'', ''datastore-3'', ''datastore-4''}"
    by (simp add: ex_defs refValue_def)
  from C1_partition [of ex_datastores ex_pods] run all show ?thesis
    unfolding Let_def by simp
qed

lemma count_list_distinct: "distinct xs \<Longrightarrow> x \<in> set xs \<Longrightarrow> count_list xs x = 1"
  by (induction xs) auto

lemma count_list_concat:
  "count_list (concat xss) x = sum_list (map (\<lambda>xs. count_list xs x) xss)"
  by (induction xss) simp_all

lemma count_reachable:
  "count_list (map refValue (List.map_filter (\<lambda>c. datastoreMap datastores (Value c)) cs)) v =
     (if v \<in> refValue ` set datastores then count_list (map Value cs) v else 0)"
proof (induction cs)
  case Nil
  show ?case by simp
next
  case (Cons c cs)
  show ?case
  proof (cases "datastoreMap datastores (Value c)")
    case None
    then have "Value c \<notin> refValue ` set datastores"
      by (simp add: datastoreMap_None_iff)
    then have "v \<in> refValue ` set datastores \<Longrightarrow> Value c \<noteq> v" by metis
    with None Cons.IH show ?thesis by simp
  next
    case (Some ds)
    from datastoreMap_Some [OF Some] have r: "refValue ds = Value c"
      and "Value c \<in> refValue ` set datastores"
      by (simp, metis imageI)
    then have "v \<notin> refValue ` set datastores \<Longrightarrow> Value c \<noteq> v" by metis
    with Some r Cons.IH show ?thesis by simp
  qed
qed

lemma count_standalone:
  "count_list (map refValue (standaloneDatastores pods datastores)) v =
     (if \<exists>p \<in> set pods. v \<in> set (map Value (sp_ChildEntity p)) then 0
      else count_list (map refValue datastores) v)"
proof (induction datastores)
  case Nil
  show ?case by (simp add: standaloneDatastores_def)
next
  case (Cons ds datastores)
  then show ?case
    by (auto simp: standaloneDatastores_def belongsToStoragePod_iff)
qed

text \<open>
  C2, as stated, fails: the loop over the pods keeps no record of the references already
  listed, so a datastore that two pods name is listed under both.
\<close>

theorem C2_listed_under_both_groups_counterexample:
  "ci_DatastoreClusters (fst (reportCluster True ex_shared_pods
       [ex_datastore ''datastore-1'' ''Datastore01'' 2199023255552 1099511627776]
       (\<lparr>ci_Name = ''Cluster01'', ci_DatastoreClusters = [], ci_StandaloneDatastores = []\<rparr>, []))) =
     [\<lparr>dci_Name = ''StoragePod01'',
        dci_Datastores = [\<lparr>di_Name = ''Datastore01'', di_Capacity = 2048, di_FreeSpace = 1024\<rparr>]\<rparr>,
      \<lparr>dci_Name = ''StoragePod02'',
        dci_Datastores = [\<lparr>di_Name = ''Datastore01'', di_Capacity = 2048, di_FreeSpace = 1024\<rparr>]\<rparr>]"
  by (simp add: reportCluster_def displayDatastoreClusters_def ex_shared_pods_def ex_defs
      datastoreMap_def belongsToStoragePod_def datastoreInfo_def bytes_to_gb_exact)

text \<open>
  C2, amended. In either mode the cluster's report, and the loops it is made of, list the
  datastores \<open>reachableMembers\<close> under a pod and \<open>standaloneDatastores\<close> as standalone. A reference value of a retrieved datastore is
  listed under every pod whose member list contains it, once for each occurrence there; it is
  listed as standalone, once for each retrieved datastore that carries it, exactly when no
  member list contains it; so it is never both under a pod and standalone, and it is listed
  exactly once when the retrieved datastores carry distinct references and it occurs at most
  once in all the member lists together.
\<close>

theorem C2_listing_counts:
  "let m = datastoreMap datastores;
       under = (\<lambda>pod :: mo_StoragePod. map refValue (reachableMembers m pod));
       alone = map refValue (standaloneDatastores storagePods datastores);
       members = (\<lambda>pod :: mo_StoragePod. map Value (sp_ChildEntity pod))
   in reportCluster True storagePods datastores (clusterInfo, out) =
        (clusterInfo\<lparr>
           ci_DatastoreClusters := ci_DatastoreClusters clusterInfo @
             map (\<lambda>p. \<lparr>dci_Name = sp_Name p,
                         dci_Datastores = map datastoreInfo (reachableMembers m p)\<rparr>)
               (filter (\<lambda>p. reachableMembers m p \<noteq> []) storagePods),
           ci_StandaloneDatastores := ci_StandaloneDatastores clusterInfo @
             map datastoreInfo (standaloneDatastores storagePods datastores)\<rparr>,
         out) \<and>
      reportCluster False storagePods datastores (clusterInfo, out) =
        (clusterInfo,
         out @
         (if storagePods = [] then [''  No datastore clusters found for this cluster'' @ nl]
          else concat (map (\<lambda>p. (''  Datastore Cluster: '' @ sp_Name p @ nl) #
                 (if reachableMembers m p = []
                  then [''    No datastores from this cluster in this datastore cluster'' @ nl]
                  else map datastoreLine (reachableMembers m p))) storagePods)) @
         [''  Standalone Datastores:'' @ nl] @
         (if standaloneDatastores storagePods datastores = []
          then [''    No standalone datastores found'' @ nl]
          else map datastoreLine (standaloneDatastores storagePods datastores))) \<and>
      childEntity_loop json m (sp_ChildEntity pod) (False, [], out) =
        (reachableMembers m pod \<noteq> [],
         if json then map datastoreInfo (reachableMembers m pod) else [],
         if json then out else out @ map datastoreLine (reachableMembers m pod)) \<and>
      standalone_loop json storagePods datastores (False, [], out) =
        (standaloneDatastores storagePods datastores \<noteq> [],
         if json then map datastoreInfo (standaloneDatastores storagePods datastores) else [],
         if json then out else out @ map datastoreLine (standaloneDatastores storagePods datastores)) \<and>
      count_list (under pod) v =
        (if v \<in> refValue ` set datastores then count_list (members pod) v else 0) \<and>
      count_list alone v =
        (if \<exists>p \<in> set storagePods. v \<in> set (members p) then 0
         else count_list (map refValue datastores) v) \<and>
      (v \<in> set alone \<longrightarrow> (\<forall>p \<in> set storagePods. v \<notin> set (under p))) \<and>
      (distinct (map refValue datastores) \<and> v \<in> refValue ` set datastores \<and>
       count_list (concat (map members storagePods)) v \<le> 1 \<longrightarrow>
         count_list (concat (map under storagePods) @ alone) v = 1)"
proof -
  define m where "m = datastoreMap datastores"
  define under where "under = (\<lambda>pod :: mo_StoragePod. map refValue (reachableMembers m pod))"
  define alone where "alone = map refValue (standaloneDatastores storagePods datastores)"
  define members where "members = (\<lambda>pod :: mo_StoragePod. map Value (sp_ChildEntity pod))"
  have loop1: "childEntity_loop json m (sp_ChildEntity pod) (False, [], out) =
        (reachableMembers m pod \<noteq> [],
         if json then map datastoreInfo (reachableMembers m pod) else [],
         if json then out else out @ map datastoreLine (reachableMembers m pod))"
    by (simp add: childEntity_loop_eq reachableMembers_def)
  have loop2: "standalone_loop json storagePods datastores (False, [], out) =
        (standaloneDatastores storagePods datastores \<noteq> [],
         if json then map datastoreInfo (standaloneDatastores storagePods datastores) else [],
         if json then out else out @ map datastoreLine (standaloneDatastores storagePods datastores))"
    by (simp add: standalone_loop_eq)
  have cu: "count_list (under p) v =
        (if v \<in> refValue ` set datastores then count_list (members p) v else 0)" for p
    unfolding under_def members_def m_def reachableMembers_def by (rule count_reachable)
  have ca: "count_list alone v =
        (if \<exists>p \<in> set storagePods. v \<in> set (members p) then 0
         else count_list (map refValue datastores) v)"
    unfolding alone_def members_def by (rule count_standalone)
  have never_both: "v \<in> set alone \<longrightarrow> (\<forall>p \<in> set storagePods. v \<notin> set (under p))"
  proof (intro impI ballI)
    fix p
    assume "v \<in> set alone" and p: "p \<in> set storagePods"
    then have "count_list alone v \<noteq> 0" by (simp add: count_list_0_iff)
    with ca p have "v \<notin> set (members p)" by (auto split: if_splits)
    then have "count_list (members p) v = 0" by simp
    with cu [of p] have "count_list (under p) v = 0" by simp
    then show "v \<notin> set (under p)" by (simp add: count_list_0_iff)
  qed
  have once: "count_list (concat (map under storagePods) @ alone) v = 1"
    if d: "distinct (map refValue datastores)" and r: "v \<in> refValue ` set datastores"
      and n: "count_list (concat (map members storagePods)) v \<le> 1"
  proof -
    have g: "count_list (concat (map under storagePods)) v =
        count_list (concat (map members storagePods)) v"
      using r by (simp add: count_list_concat comp_def cu)
    show ?thesis
    proof (cases "count_list (concat (map members storagePods)) v = 0")
      case True
      then have "v \<notin> set (concat (map members storagePods))" by (simp add: count_list_0_iff)
      then have "\<not> (\<exists>p \<in> set storagePods. v \<in> set (members p))" by simp
      with ca have "count_list alone v = count_list (map refValue datastores) v" by simp
      also from d r have "\<dots> = 1" by (simp add: count_list_distinct)
      finally show ?thesis using g True by simp
    next
      case False
      with n have one: "count_list (concat (map members storagePods)) v = 1" by simp
      then have "v \<in> set (concat (map members storagePods))"
        using count_list_0_iff [of "concat (map members storagePods)" v] by simp
      then have "\<exists>p \<in> set storagePods. v \<in> set (members p)" by simp
      with ca have "count_list alone v = 0" by simp
      with g one show ?thesis by simp
    qed
  qed
  note rj = reportCluster_json [of storagePods datastores clusterInfo out]
  note rt = reportCluster_text [of storagePods datastores clusterInfo out]
  show ?thesis
    using rj rt loop1 loop2 cu [of pod] ca never_both once
    unfolding Let_def under_def alone_def members_def m_def
    by blast
qed

theorem C2_listing_counts_witness:
  "distinct (map refValue ex_datastores) \<and>
   ''datastore-1'' \<in> refValue ` set ex_datastores \<and>
   count_list (concat (map (\<lambda>pod. map Value (sp_ChildEntity pod)) ex_pods)) ''datastore-1'' \<le> 1 \<and>
   count_list
     (concat (map (\<lambda>pod. map refValue (reachableMembers (datastoreMap ex_datastores) pod)) ex_pods) @
      map refValue (standaloneDatastores ex_pods ex_datastores)) ''datastore-1'' = 1"
proof -
  have h1: "distinct (map refValue ex_datastores)"
    by (simp add: ex_defs refValue_def)
  have h2: "''datastore-1'' \<in> refValue ` set ex_datastores"
    by (simp add: ex_defs refValue_def)
  have h3: "count_list (concat (map (\<lambda>pod. map Value (sp_ChildEntity pod)) ex_pods))
      ''datastore-1'' \<le> 1"
    by (simp add: ex_defs)
  from C2_listing_counts [where datastores = ex_datastores and storagePods = ex_pods
      and v = "''datastore-1''"] h1 h2 h3
  show ?thesis unfolding Let_def by blast
qed

lemma reachableMembers_Nil_iff:
  "reachableMembers (datastoreMap datastores) pod = [] \<longleftrightarrow>
     Value ` set (sp_ChildEntity pod) \<inter> refValue ` set datastores = {}"
  using grouped_refs [of datastores pod] by (metis image_is_empty set_empty)

lemma belongsToStoragePod_without:
  assumes "Value ` set (sp_ChildEntity pod) \<inter> refValue ` set datastores = {}"
    and "ds \<in> set datastores"
  shows "belongsToStoragePod (before @ pod # after) ds = belongsToStoragePod (before @ after) ds"
proof -
  from assms have "refValue ds \<notin> Value ` set (sp_ChildEntity pod)" by blast
  then show ?thesis by (auto simp: belongsToStoragePod_iff)
qed

lemma standaloneDatastores_without:
  assumes "Value ` set (sp_ChildEntity pod) \<inter> refValue ` set datastores = {}"
  shows "standaloneDatastores (before @ pod # after) datastores =
         standaloneDatastores (before @ after) datastores"
  unfolding standaloneDatastores_def
  by (rule filter_cong [OF refl]) (simp add: belongsToStoragePod_without [OF assms])

text \<open>
  C4. A pod none of whose members the cluster reaches: in JSON mode the cluster's report is the
  one it would get were the pod not there, and every datastore cluster a report holds has a
  datastore; in text mode the cluster's report has, between the lines of the pods before it and
  those of the pods after it, the pod's name followed by the line saying that it has no
  datastores from this cluster.
\<close>

theorem C4_empty_group:
  assumes "Value ` set (sp_ChildEntity pod) \<inter> refValue ` set datastores = {}"
  shows "let m = datastoreMap datastores;
             groupLines = (\<lambda>p :: mo_StoragePod.
               (''  Datastore Cluster: '' @ sp_Name p @ nl) #
               (if reachableMembers m p = []
                then [''    No datastores from this cluster in this datastore cluster'' @ nl]
                else map datastoreLine (reachableMembers m p)));
             standalone = standaloneDatastores (before @ after) datastores
         in reportCluster True (before @ pod # after) datastores (clusterInfo, out) =
              reportCluster True (before @ after) datastores (clusterInfo, out) \<and>
            (\<forall>g \<in> set (ci_DatastoreClusters (fst (reportCluster True storagePods datastores
                 (\<lparr>ci_Name = name, ci_DatastoreClusters = [], ci_StandaloneDatastores = []\<rparr>,
                  out)))).
               dci_Datastores g \<noteq> []) \<and>
            reportCluster False (before @ pod # after) datastores (clusterInfo, out) =
              (clusterInfo,
               out @ concat (map groupLines before) @
               [''  Datastore Cluster: '' @ sp_Name pod @ nl,
                ''    No datastores from this cluster in this datastore cluster'' @ nl] @
               concat (map groupLines after) @
               [''  Standalone Datastores:'' @ nl] @
               (if standalone = [] then [''    No standalone datastores found'' @ nl]
                else map datastoreLine standalone)) \<and>
            storagePods_loop False m (before @ pod # after) (dcs, out) =
              (case storagePods_loop False m before (dcs, out) of
                 (dcs1, out1) \<Rightarrow>
                   storagePods_loop False m after
                     (dcs1, out1 @ [''  Datastore Cluster: '' @ sp_Name pod @ nl,
                        ''    No datastores from this cluster in this datastore cluster'' @ nl]))"
proof -
  from assms have e: "reachableMembers (datastoreMap datastores) pod = []"
    by (simp add: reachableMembers_Nil_iff)
  have j: "reportCluster True (before @ pod # after) datastores (clusterInfo, out) =
           reportCluster True (before @ after) datastores (clusterInfo, out)"
    by (simp add: reportCluster_json e standaloneDatastores_without [OF assms])
  have g: "\<forall>g \<in> set (ci_DatastoreClusters (fst (reportCluster True storagePods datastores
              (\<lparr>ci_Name = name, ci_DatastoreClusters = [], ci_StandaloneDatastores = []\<rparr>, out)))).
            dci_Datastores g \<noteq> []"
    by (auto simp: reportCluster_json)
  have t: "reportCluster False (before @ pod # after) datastores (clusterInfo, out) =
      (clusterInfo,
       out @ concat (map (\<lambda>p :: mo_StoragePod.
               (''  Datastore Cluster: '' @ sp_Name p @ nl) #
               (if reachableMembers (datastoreMap datastores) p = []
                then [''    No datastores from this cluster in this datastore cluster'' @ nl]
                else map datastoreLine (reachableMembers (datastoreMap datastores) p))) before) @
       [''  Datastore Cluster: '' @ sp_Name pod @ nl,
        ''    No datastores from this cluster in this datastore cluster'' @ nl] @
       concat (map (\<lambda>p :: mo_StoragePod.
               (''  Datastore Cluster: '' @ sp_Name p @ nl) #
               (if reachableMembers (datastoreMap datastores) p = []
                then [''    No datastores from this cluster in this datastore cluster'' @ nl]
                else map datastoreLine (reachableMembers (datastoreMap datastores) p))) after) @
       [''  Standalone Datastores:'' @ nl] @
       (if standaloneDatastores (before @ after) datastores = []
        then [''    No standalone datastores found'' @ nl]
        else map datastoreLine (standaloneDatastores (before @ after) datastores)))"
    by (simp add: reportCluster_text e standaloneDatastores_without [OF assms])
  have l: "storagePods_loop False (datastoreMap datastores) (before @ pod # after) (dcs, out) =
           (case storagePods_loop False (datastoreMap datastores) before (dcs, out) of
              (dcs1, out1) \<Rightarrow>
                storagePods_loop False (datastoreMap datastores) after
                  (dcs1, out1 @ [''  Datastore Cluster: '' @ sp_Name pod @ nl,
                     ''    No datastores from this cluster in this datastore cluster'' @ nl]))"
    by (simp add: storagePods_loop_text e del: storagePods_loop.simps)
  from j g t l show ?thesis unfolding Let_def by (intro conjI)
qed

theorem C4_empty_group_witness:
  "Value ` set (sp_ChildEntity (ex_pod ''StoragePod03'' [''datastore-8''])) \<inter>
     refValue ` set ex_datastores = {} \<and>
   reportCluster True ex_pods ex_datastores
     (\<lparr>ci_Name = ''Cluster01'', ci_DatastoreClusters = [], ci_StandaloneDatastores = []\<rparr>, []) =
   reportCluster True
     [ex_pod ''StoragePod01'' [''datastore-1'', ''datastore-2''],
      ex_pod ''StoragePod02'' [''datastore-3'', ''datastore-9'']] ex_datastores
     (\<lparr>ci_Name = ''Cluster01'', ci_DatastoreClusters = [], ci_StandaloneDatastores = []\<rparr>, []) \<and>
   snd (reportCluster False ex_pods ex_datastores
     (\<lparr>ci_Name = [], ci_DatastoreClusters = [], ci_StandaloneDatastores = []\<rparr>, [])) =
     [''  Datastore Cluster: StoragePod01'' @ nl,
      ''    - Datastore01 (Capacity: 2048.00 GB, Free: 1024.00 GB)'' @ nl,
      ''    - Datastore02 (Capacity: 4096.00 GB, Free: 2048.00 GB)'' @ nl,
      ''  Datastore Cluster: StoragePod02'' @ nl,
      ''    - Datastore03 (Capacity: 1024.00 GB, Free: 512.00 GB)'' @ nl,
      ''  Datastore Cluster: StoragePod03'' @ nl,
      ''    No datastores from this cluster in this datastore cluster'' @ nl,
      ''  Standalone Datastores:'' @ nl,
      ''    - Datastore04 (Capacity: 8192.00 GB, Free: 4096.00 GB)'' @ nl]"
proof -
  have h: "Value ` set (sp_ChildEntity (ex_pod ''StoragePod03'' [''datastore-8''])) \<inter>
     refValue ` set ex_datastores = {}"
    by (simp add: ex_defs refValue_def)
  have pods: "ex_pods =
      [ex_pod ''StoragePod01'' [''datastore-1'', ''datastore-2''],
       ex_pod ''StoragePod02'' [''datastore-3'', ''datastore-9'']] @
      ex_pod ''StoragePod03'' [''datastore-8''] # []"
    by (simp add: ex_pods_def)
  note c4 = C4_empty_group [OF h,
      where before = "[ex_pod ''StoragePod01'' [''datastore-1'', ''datastore-2''],
           ex_pod ''StoragePod02'' [''datastore-3'', ''datastore-9'']]"
      and after = "[]" and out = "[]", unfolded Let_def, folded pods]
  from c4 [where clusterInfo = "\<lparr>ci_Name = ''Cluster01'', ci_DatastoreClusters = [],
           ci_StandaloneDatastores = []\<rparr>", THEN conjunct1]
  have j: "reportCluster True ex_pods ex_datastores
     (\<lparr>ci_Name = ''Cluster01'', ci_DatastoreClusters = [], ci_StandaloneDatastores = []\<rparr>, []) =
   reportCluster True
     [ex_pod ''StoragePod01'' [''datastore-1'', ''datastore-2''],
      ex_pod ''StoragePod02'' [''datastore-3'', ''datastore-9'']] ex_datastores
     (\<lparr>ci_Name = ''Cluster01'', ci_DatastoreClusters = [], ci_StandaloneDatastores = []\<rparr>, [])"
    by simp
  have m1: "reachableMembers (datastoreMap ex_datastores)
      (ex_pod ''StoragePod01'' [''datastore-1'', ''datastore-2'']) =
      [ex_datastore ''datastore-1'' ''Datastore01'' 2199023255552 1099511627776,
       ex_datastore ''datastore-2'' ''Datastore02'' 4398046511104 2199023255552]"
    by (simp add: reachableMembers_def ex_pod_def ex_datastores_def ex_datastore_def ex_ref_def
        datastoreMap_def)
  have m2: "reachableMembers (datastoreMap ex_datastores)
      (ex_pod ''StoragePod02'' [''datastore-3'', ''datastore-9'']) =
      [ex_datastore ''datastore-3'' ''Datastore03'' 1099511627776 549755813888]"
    by (simp add: reachableMembers_def ex_pod_def ex_datastores_def ex_datastore_def ex_ref_def
        datastoreMap_def)
  have sa: "standaloneDatastores
      [ex_pod ''StoragePod01'' [''datastore-1'', ''datastore-2''],
       ex_pod ''StoragePod02'' [''datastore-3'', ''datastore-9'']] ex_datastores =
      [ex_datastore ''datastore-4'' ''Datastore04'' 8796093022208 4398046511104]"
    by (simp add: standaloneDatastores_def belongsToStoragePod_def ex_pod_def ex_datastores_def
        ex_datastore_def ex_ref_def)
  have ln: "datastoreLine (ex_datastore ''datastore-1'' ''Datastore01'' 2199023255552 1099511627776) =
      ''    - Datastore01 (Capacity: 2048.00 GB, Free: 1024.00 GB)'' @ nl"
    "datastoreLine (ex_datastore ''datastore-2'' ''Datastore02'' 4398046511104 2199023255552) =
      ''    - Datastore02 (Capacity: 4096.00 GB, Free: 2048.00 GB)'' @ nl"
    "datastoreLine (ex_datastore ''datastore-3'' ''Datastore03'' 1099511627776 549755813888) =
      ''    - Datastore03 (Capacity: 1024.00 GB, Free: 512.00 GB)'' @ nl"
    "datastoreLine (ex_datastore ''datastore-4'' ''Datastore04'' 8796093022208 4398046511104) =
      ''    - Datastore04 (Capacity: 8192.00 GB, Free: 4096.00 GB)'' @ nl"
    by (simp_all add: datastoreLine_def ex_datastore_def bytes_to_gb_exact fmt_2f_examples)
  have n: "sp_Name (ex_pod n vs) = n" for n vs
    by (simp add: ex_pod_def)
  from c4 [where clusterInfo = "\<lparr>ci_Name = [], ci_DatastoreClusters = [],
           ci_StandaloneDatastores = []\<rparr>", THEN conjunct2, THEN conjunct2, THEN conjunct1]
  have t: "snd (reportCluster False ex_pods ex_datastores
     (\<lparr>ci_Name = [], ci_DatastoreClusters = [], ci_StandaloneDatastores = []\<rparr>, [])) =
     [''  Datastore Cluster: StoragePod01'' @ nl,
      ''    - Datastore01 (Capacity: 2048.00 GB, Free: 1024.00 GB)'' @ nl,
      ''    - Datastore02 (Capacity: 4096.00 GB, Free: 2048.00 GB)'' @ nl,
      ''  Datastore Cluster: StoragePod02'' @ nl,
      ''    - Datastore03 (Capacity: 1024.00 GB, Free: 512.00 GB)'' @ nl,
      ''  Datastore Cluster: StoragePod03'' @ nl,
      ''    No datastores from this cluster in this datastore cluster'' @ nl,
      ''  Standalone Datastores:'' @ nl,
      ''    - Datastore04 (Capacity: 8192.00 GB, Free: 4096.00 GB)'' @ nl]"
    by (simp add: m1 m2 sa ln n)
  from h j t show ?thesis by (intro conjI)
qed

section \<open>The loop over the clusters\<close>

lemma cluster_body_folders_fail:
  assumes "datastoreFolders lib dc w = (Inl e, w')"
  shows "cluster_body lib cfg dc cluster (infraInfo, out, w) =
     (infraInfo,
      if OutputJSON cfg then out
      else out @ [nl @ ''Cluster: '' @ ccr_Name cluster @ nl,
                  replicate (length (ccr_Name cluster) + 9) (CHR ''-'') @ nl,
                  ''  Error finding datastore folders: '' @ e @ nl],
      w')"
  using assms by (simp add: cluster_body_def)

lemma cluster_body_cluster_fail:
  assumes "datastoreFolders lib dc w = (Inr folders, w1)"
    and "folders_loop lib folders [] w1 = (storagePods, w2)"
    and "RetrieveOne_Cluster lib w2 (ccr_Reference cluster) = (Inl e, w')"
  shows "cluster_body lib cfg dc cluster (infraInfo, out, w) =
     (infraInfo,
      if OutputJSON cfg then out
      else out @ [nl @ ''Cluster: '' @ ccr_Name cluster @ nl,
                  replicate (length (ccr_Name cluster) + 9) (CHR ''-'') @ nl,
                  ''  Error getting cluster details: '' @ e @ nl],
      w')"
  using assms by (simp add: cluster_body_def)

lemma cluster_body_retrieve_fail:
  assumes "datastoreFolders lib dc w = (Inr folders, w1)"
    and "folders_loop lib folders [] w1 = (storagePods, w2)"
    and "RetrieveOne_Cluster lib w2 (ccr_Reference cluster) = (Inr dsList, w3)"
    and "Retrieve lib w3 dsList = (Inl e, w')"
  shows "cluster_body lib cfg dc cluster (infraInfo, out, w) =
     (infraInfo,
      if OutputJSON cfg then out
      else out @ [nl @ ''Cluster: '' @ ccr_Name cluster @ nl,
                  replicate (length (ccr_Name cluster) + 9) (CHR ''-'') @ nl,
                  ''  Error retrieving datastore details: '' @ e @ nl],
      w')"
  using assms by (simp add: cluster_body_def)

lemma cluster_body_ok:
  assumes "datastoreFolders lib dc w = (Inr folders, w1)"
    and "folders_loop lib folders [] w1 = (storagePods, w2)"
    and "RetrieveOne_Cluster lib w2 (ccr_Reference cluster) = (Inr dsList, w3)"
    and "Retrieve lib w3 dsList = (Inr datastores, w')"
  shows "cluster_body lib cfg dc cluster (infraInfo, out, w) =
     (if OutputJSON cfg
      then (infraInfo\<lparr>ii_Clusters := ii_Clusters infraInfo @
              [fst (reportCluster True storagePods datastores
                 (\<lparr>ci_Name = ccr_Name cluster, ci_DatastoreClusters = [],
                   ci_StandaloneDatastores = []\<rparr>, out))]\<rparr>,
            out, w')
      else (infraInfo,
            snd (reportCluster False storagePods datastores
              (\<lparr>ci_Name = '''', ci_DatastoreClusters = [], ci_StandaloneDatastores = []\<rparr>,
               out @ [nl @ ''Cluster: '' @ ccr_Name cluster @ nl,
                      replicate (length (ccr_Name cluster) + 9) (CHR ''-'') @ nl])),
            w'))"
  using assms by (simp add: cluster_body_def reportCluster_json split: prod.splits)

text \<open>In JSON mode the loop over the clusters writes nothing.\<close>

lemma cluster_body_json_out:
  assumes "OutputJSON cfg"
  shows "fst (snd (cluster_body lib cfg dc cluster (infraInfo, out, w))) = out"
  using assms
  by (simp add: cluster_body_def reportCluster_json split: prod.splits sum.splits)

lemma clusters_loop_json_out:
  assumes "OutputJSON cfg"
  shows "fst (snd (clusters_loop lib cfg dc clusters (infraInfo, out, w))) = out"
proof (induction clusters arbitrary: infraInfo out w)
  case Nil
  show ?case by simp
next
  case (Cons cluster clusters)
  obtain i o' w' where b: "cluster_body lib cfg dc cluster (infraInfo, out, w) = (i, o', w')"
    by (cases "cluster_body lib cfg dc cluster (infraInfo, out, w)")
  with cluster_body_json_out [OF assms, of lib dc cluster infraInfo out w] have "o' = out"
    by simp
  with b Cons.IH show ?case by simp
qed

lemma report_exit_code:
  assumes "ClusterComputeResourceList lib w dc ''*'' = (Inr clusters, w1)"
    and "OutputJSON cfg \<longrightarrow> (\<forall>info. \<not> isl (MarshalIndent lib info))"
  shows "exit_code (fst (report lib cfg dc w)) = 0"
proof (cases "OutputJSON cfg")
  case True
  with assms(2) have "\<And>info e. MarshalIndent lib info \<noteq> Inl e"
    by (metis sum.disc(1))
  then show ?thesis
    using assms(1) True by (simp add: report_def Let_def split: prod.splits sum.splits)
next
  case False
  then show ?thesis
    using assms(1) by (simp add: report_def Let_def split: prod.splits sum.splits)
qed

section \<open>The run\<close>

lemmas run_defs = main_def parseFlags_def connectToVSphere_def findDatacenter_def report_def
     cluster_body_def datastoreFolders_def listDatacentersAndExit_def
     reportCluster_def displayDatastoreClusters_def
     datastoreMap_def belongsToStoragePod_def datastoreLine_def datastoreInfo_def
     bytes_to_gb_exact fmt_2f_examples
lemmas lib_defs = ex_lib_def ex_flags_def ex_dc_def ex_cluster_def ex_folder_def ex_marshal_def
     ex_defs

lemma main_report:
  assumes "URL flags \<noteq> ''''" "Username flags \<noteq> ''''" "Password flags \<noteq> ''''"
    and "connectToVSphere lib flags w = (Inr u, w1)"
    and "findDatacenter lib flags w1 = (Inr dc, w2)"
  shows "main lib flags w = report lib flags dc w2"
  using assms by (simp add: main_def parseFlags_def)

lemma listDatacentersAndExit_exit_code:
  "exit_code (fst (listDatacentersAndExit lib w)) = 1"
  by (simp add: listDatacentersAndExit_def split: prod.splits sum.splits)

lemma finder_contract_ex_lib: "finder_contract ex_lib"
  by (simp add: finder_contract_def ex_lib_def)

text \<open>
  Lines 120-123 as they are written: were the finder to answer the search for the clusters with
  an empty list and no error, the run would write the line \<^verbatim>\<open>No clusters found in the
  selected datacenter.\<close> (after the datacenter banner in text mode, alone in JSON mode) and
  exit with code 0.
\<close>

lemma no_clusters_branch:
  assumes "URL flags \<noteq> []" "Username flags \<noteq> []" "Password flags \<noteq> []"
    and "connectToVSphere lib flags w = (Inr u, w1)"
    and "findDatacenter lib flags w1 = (Inr dc, w2)"
    and "ClusterComputeResourceList lib w2 dc ''*'' = (Inr [], w3)"
  shows "main lib flags w =
     (\<lparr>stdout = (if OutputJSON flags then [] else [''Using datacenter: '' @ dc_Name dc @ nl]) @
                 [''No clusters found in the selected datacenter.'' @ nl],
       exit_code = 0\<rparr>, w3)"
  using assms(6) unfolding main_report [OF assms(1-5)]
  by (simp add: report_def)

text \<open>
  C9 does not hold of the program: the finder answers a datacenter without clusters with its
  \<^verbatim>\<open>NotFoundError\<close>, not with an empty list. So the test of line 120 never succeeds, and on
  such a datacenter the run takes lines 115-118: it writes \<^verbatim>\<open>Error getting clusters:\<close> with
  the finder's message (after the datacenter banner in text mode) and exits with code 1.
\<close>

theorem C9_no_clusters_exit_1:
  assumes "finder_contract lib"
    and "URL flags \<noteq> []" "Username flags \<noteq> []" "Password flags \<noteq> []"
    and "connectToVSphere lib flags w = (Inr u, w1)"
    and "findDatacenter lib flags w1 = (Inr dc, w2)"
  shows "ClusterComputeResourceList lib w2 dc ''*'' \<noteq> (Inr [], w3) \<and>
     (ClusterComputeResourceList lib w2 dc ''*'' = (Inl e, w3) \<longrightarrow>
        main lib flags w =
          (\<lparr>stdout = (if OutputJSON flags then []
                       else [''Using datacenter: '' @ dc_Name dc @ nl]) @
                      [''Error getting clusters: '' @ e @ nl],
            exit_code = 1\<rparr>, w3))"
proof (intro conjI impI)
  from assms(1) show "ClusterComputeResourceList lib w2 dc ''*'' \<noteq> (Inr [], w3)"
    unfolding finder_contract_def by blast
next
  assume "ClusterComputeResourceList lib w2 dc ''*'' = (Inl e, w3)"
  then show "main lib flags w =
          (\<lparr>stdout = (if OutputJSON flags then []
                       else [''Using datacenter: '' @ dc_Name dc @ nl]) @
                      [''Error getting clusters: '' @ e @ nl],
            exit_code = 1\<rparr>, w3)"
    unfolding main_report [OF assms(2-6)] by (simp add: report_def)
qed

theorem C9_no_clusters_exit_1_witness:
  "main ex_lib (ex_flags\<lparr>Datacenter := ''DC02''\<rparr>) 0 =
     (\<lparr>stdout = [''Using datacenter: DC02'' @ nl,
                  ''Error getting clusters: cluster '*' not found'' @ nl],
       exit_code = 1\<rparr>, 4) \<and>
   main ex_lib (ex_flags\<lparr>Datacenter := ''DC02'', OutputJSON := True\<rparr>) 0 =
     (\<lparr>stdout = [''Error getting clusters: cluster '*' not found'' @ nl], exit_code = 1\<rparr>, 4)"
proof -
  have t: "main ex_lib (ex_flags\<lparr>Datacenter := ''DC02''\<rparr>) 0 =
     (\<lparr>stdout = [''Using datacenter: DC02'' @ nl,
                  ''Error getting clusters: cluster '*' not found'' @ nl],
       exit_code = 1\<rparr>, 4)"
    using C9_no_clusters_exit_1 [OF finder_contract_ex_lib,
        of "ex_flags\<lparr>Datacenter := ''DC02''\<rparr>" 0 "()" 2 "ex_dc ''DC02''" 3 4
        "''cluster '*' not found''"]
    by (simp add: ex_flags_def connectToVSphere_def findDatacenter_def ex_lib_def ex_dc_def)
  have j: "main ex_lib (ex_flags\<lparr>Datacenter := ''DC02'', OutputJSON := True\<rparr>) 0 =
     (\<lparr>stdout = [''Error getting clusters: cluster '*' not found'' @ nl], exit_code = 1\<rparr>, 4)"
    using C9_no_clusters_exit_1 [OF finder_contract_ex_lib,
        of "ex_flags\<lparr>Datacenter := ''DC02'', OutputJSON := True\<rparr>" 0 "()" 2
        "ex_dc ''DC02''" 3 4 "''cluster '*' not found''"]
    by (simp add: ex_flags_def connectToVSphere_def findDatacenter_def ex_lib_def ex_dc_def)
  from t j show ?thesis by (rule conjI)
qed

text \<open>
  C10. In JSON mode, on a run that reaches the serialisation, standard output is the
  serialised document and nothing else, whatever happened while the clusters were processed.
\<close>

theorem C10_json_only:
  assumes "URL flags \<noteq> ''''" "Username flags \<noteq> ''''" "Password flags \<noteq> ''''"
    and "connectToVSphere lib flags w = (Inr u, w1)"
    and "findDatacenter lib flags w1 = (Inr dc, w2)"
    and "ClusterComputeResourceList lib w2 dc ''*'' = (Inr clusters, w3)"
    and "clusters \<noteq> []"
    and "OutputJSON flags"
    and "clusters_loop lib flags dc clusters
           (\<lparr>ii_Datacenter = dc_Name dc, ii_Clusters = []\<rparr>, [], w3) = (infraInfo, out, w4)"
    and "MarshalIndent lib infraInfo = Inr jsonOutput"
  shows "fst (main lib flags w) = \<lparr>stdout = [jsonOutput @ nl], exit_code = 0\<rparr>"
proof -
  from clusters_loop_json_out [OF assms(8), of lib dc clusters
      "\<lparr>ii_Datacenter = dc_Name dc, ii_Clusters = []\<rparr>" "[]" w3] assms(9)
  have "out = []" by simp
  with assms(6-10) show ?thesis
    unfolding main_report [OF assms(1-5)] by (simp add: report_def)
qed

lemma ex_flaky_loop:
  "clusters_loop ex_flaky ex_json_flags (ex_dc ''DC01'')
     [ex_cluster ''Cluster01'' ''domain-c1'', ex_cluster ''Cluster02'' ''domain-c2'',
      ex_cluster ''Cluster03'' ''domain-c3'', ex_cluster ''Cluster04'' ''domain-c4'']
     (\<lparr>ii_Datacenter = dc_Name (ex_dc ''DC01''), ii_Clusters = []\<rparr>, [], 4) =
   (\<lparr>ii_Datacenter = ''DC01'',
      ii_Clusters =
        [\<lparr>ci_Name = ''Cluster04'',
           ci_DatastoreClusters =
             [\<lparr>dci_Name = ''StoragePod01'',
                dci_Datastores =
                  [\<lparr>di_Name = ''Datastore01'', di_Capacity = 2048, di_FreeSpace = 1024\<rparr>,
                   \<lparr>di_Name = ''Datastore02'', di_Capacity = 4096, di_FreeSpace = 2048\<rparr>]\<rparr>,
              \<lparr>dci_Name = ''StoragePod02'',
                dci_Datastores =
                  [\<lparr>di_Name = ''Datastore03'', di_Capacity = 1024, di_FreeSpace = 512\<rparr>]\<rparr>],
           ci_StandaloneDatastores =
             [\<lparr>di_Name = ''Datastore04'', di_Capacity = 8192, di_FreeSpace = 4096\<rparr>]\<rparr>]\<rparr>,
    [], 30)"
  by (simp add: run_defs lib_defs ex_flaky_def ex_json_flags_def)

theorem C10_json_only_witness:
  "fst (main ex_flaky ex_json_flags 0) =
     \<lparr>stdout = [''DC01 Cluster04'' @ nl], exit_code = 0\<rparr>"
proof -
  have f: "URL ex_json_flags \<noteq> []" "Username ex_json_flags \<noteq> []"
      "Password ex_json_flags \<noteq> []"
    by (simp_all add: ex_json_flags_def ex_flags_def)
  have c: "connectToVSphere ex_flaky ex_json_flags 0 = (Inr (), 2)"
    by (simp add: connectToVSphere_def lib_defs ex_flaky_def ex_json_flags_def)
  have d: "findDatacenter ex_flaky ex_json_flags 2 = (Inr (ex_dc ''DC01''), 3)"
    by (simp add: findDatacenter_def lib_defs ex_flaky_def ex_json_flags_def)
  have l: "ClusterComputeResourceList ex_flaky 3 (ex_dc ''DC01'') ''*'' =
      (Inr [ex_cluster ''Cluster01'' ''domain-c1'', ex_cluster ''Cluster02'' ''domain-c2'',
            ex_cluster ''Cluster03'' ''domain-c3'', ex_cluster ''Cluster04'' ''domain-c4''], 4)"
    by (simp add: ex_flaky_def ex_lib_def)
  have n: "[ex_cluster ''Cluster01'' ''domain-c1'', ex_cluster ''Cluster02'' ''domain-c2'',
            ex_cluster ''Cluster03'' ''domain-c3'', ex_cluster ''Cluster04'' ''domain-c4''] \<noteq> []"
    by simp
  have j: "OutputJSON ex_json_flags"
    by (simp add: ex_json_flags_def)
  have m: "MarshalIndent ex_flaky
     \<lparr>ii_Datacenter = ''DC01'',
      ii_Clusters =
        [\<lparr>ci_Name = ''Cluster04'',
           ci_DatastoreClusters =
             [\<lparr>dci_Name = ''StoragePod01'',
                dci_Datastores =
                  [\<lparr>di_Name = ''Datastore01'', di_Capacity = 2048, di_FreeSpace = 1024\<rparr>,
                   \<lparr>di_Name = ''Datastore02'', di_Capacity = 4096, di_FreeSpace = 2048\<rparr>]\<rparr>,
              \<lparr>dci_Name = ''StoragePod02'',
                dci_Datastores =
                  [\<lparr>di_Name = ''Datastore03'', di_Capacity = 1024, di_FreeSpace = 512\<rparr>]\<rparr>],
           ci_StandaloneDatastores =
             [\<lparr>di_Name = ''Datastore04'', di_Capacity = 8192, di_FreeSpace = 4096\<rparr>]\<rparr>]\<rparr> =
     Inr ''DC01 Cluster04''"
    by (simp add: ex_flaky_def ex_lib_def ex_marshal_def)
  from C10_json_only [OF f c d l n j ex_flaky_loop m] show ?thesis .
qed

text \<open>
  C6 holds of the program but for the datacenter without clusters. Against the finder the
  exit code is 1 when the URL, the user name or the password is missing, when the connection
  fails, when no datacenter is resolved and when the search for the clusters fails, as it
  does for a datacenter that has none; it is 0 once the list of clusters has been obtained,
  which is then not empty (in JSON mode provided that the serialisation succeeds).
\<close>

theorem C6_exit_codes:
  assumes "finder_contract lib"
  shows
  "(URL flags = [] \<or> Username flags = [] \<or> Password flags = [] \<longrightarrow>
      exit_code (fst (main lib flags w)) = 1) \<and>
   (URL flags \<noteq> [] \<and> Username flags \<noteq> [] \<and> Password flags \<noteq> [] \<longrightarrow>
      (connectToVSphere lib flags w = (Inl e, w1) \<longrightarrow>
         exit_code (fst (main lib flags w)) = 1) \<and>
      (connectToVSphere lib flags w = (Inr u, w1) \<longrightarrow>
         (findDatacenter lib flags w1 = (Inl e, w2) \<longrightarrow>
            exit_code (fst (main lib flags w)) = 1) \<and>
         (findDatacenter lib flags w1 = (Inr dc, w2) \<longrightarrow>
            (ClusterComputeResourceList lib w2 dc ''*'' = (Inl e, w3) \<longrightarrow>
               exit_code (fst (main lib flags w)) = 1) \<and>
            (ClusterComputeResourceList lib w2 dc ''*'' = (Inr clusters, w3) \<and>
             (OutputJSON flags \<longrightarrow> (\<forall>info. \<not> isl (MarshalIndent lib info))) \<longrightarrow>
               clusters \<noteq> [] \<and> exit_code (fst (main lib flags w)) = 0))))"
proof (intro conjI impI)
  assume "URL flags = [] \<or> Username flags = [] \<or> Password flags = []"
  then show "exit_code (fst (main lib flags w)) = 1"
    by (auto simp: main_def parseFlags_def)
next
  assume "URL flags \<noteq> [] \<and> Username flags \<noteq> [] \<and> Password flags \<noteq> []"
    and "connectToVSphere lib flags w = (Inl e, w1)"
  then show "exit_code (fst (main lib flags w)) = 1"
    by (simp add: main_def parseFlags_def)
next
  assume "URL flags \<noteq> [] \<and> Username flags \<noteq> [] \<and> Password flags \<noteq> []"
    and "connectToVSphere lib flags w = (Inr u, w1)"
    and "findDatacenter lib flags w1 = (Inl e, w2)"
  then show "exit_code (fst (main lib flags w)) = 1"
    by (simp add: main_def parseFlags_def listDatacentersAndExit_exit_code)
next
  assume f: "URL flags \<noteq> [] \<and> Username flags \<noteq> [] \<and> Password flags \<noteq> []"
    and c: "connectToVSphere lib flags w = (Inr u, w1)"
    and d: "findDatacenter lib flags w1 = (Inr dc, w2)"
    and l: "ClusterComputeResourceList lib w2 dc ''*'' = (Inl e, w3)"
  from f have "URL flags \<noteq> []" "Username flags \<noteq> []" "Password flags \<noteq> []"
    by blast+
  then have "main lib flags w = report lib flags dc w2"
    using c d by (rule main_report)
  with l show "exit_code (fst (main lib flags w)) = 1"
    by (simp add: report_def)
next
  assume "ClusterComputeResourceList lib w2 dc ''*'' = (Inr clusters, w3) \<and>
          (OutputJSON flags \<longrightarrow> (\<forall>info. \<not> isl (MarshalIndent lib info)))"
  with assms show "clusters \<noteq> []"
    unfolding finder_contract_def by blast
next
  assume f: "URL flags \<noteq> [] \<and> Username flags \<noteq> [] \<and> Password flags \<noteq> []"
    and c: "connectToVSphere lib flags w = (Inr u, w1)"
    and d: "findDatacenter lib flags w1 = (Inr dc, w2)"
    and r: "ClusterComputeResourceList lib w2 dc ''*'' = (Inr clusters, w3) \<and>
          (OutputJSON flags \<longrightarrow> (\<forall>info. \<not> isl (MarshalIndent lib info)))"
  from r have r2: "ClusterComputeResourceList lib w2 dc ''*'' = (Inr clusters, w3)"
    and r3: "OutputJSON flags \<longrightarrow> (\<forall>info. \<not> isl (MarshalIndent lib info))"
    by blast+
  from f have "URL flags \<noteq> []" "Username flags \<noteq> []" "Password flags \<noteq> []"
    by blast+
  then have "main lib flags w = report lib flags dc w2"
    using c d by (rule main_report)
  with report_exit_code [OF r2 r3]
  show "exit_code (fst (main lib flags w)) = 0" by simp
qed

theorem C6_exit_codes_witness:
  "exit_code (fst (main ex_lib (ex_flags\<lparr>Password := []\<rparr>) 0)) = 1 \<and>
   exit_code (fst (main ex_lib (ex_flags\<lparr>Password := ''guess''\<rparr>) 0)) = 1 \<and>
   exit_code (fst (main ex_lib (ex_flags\<lparr>Datacenter := ''DC09''\<rparr>) 0)) = 1 \<and>
   exit_code (fst (main ex_lib (ex_flags\<lparr>Datacenter := ''DC02''\<rparr>) 0)) = 1 \<and>
   exit_code (fst (main ex_lib ex_flags 0)) = 0"
proof -
  note c6 = C6_exit_codes [OF finder_contract_ex_lib]
  have m: "\<forall>info. \<not> isl (MarshalIndent ex_lib info)"
    by (simp add: ex_lib_def ex_marshal_def)
  have a: "exit_code (fst (main ex_lib (ex_flags\<lparr>Password := []\<rparr>) 0)) = 1"
    using c6 [where flags = "ex_flags\<lparr>Password := []\<rparr>" and w = 0]
    by (simp add: ex_flags_def)
  have b: "exit_code (fst (main ex_lib (ex_flags\<lparr>Password := ''guess''\<rparr>) 0)) = 1"
    using c6 [where flags = "ex_flags\<lparr>Password := ''guess''\<rparr>" and w = 0
        and e = "''incorrect user name or password''" and ?w1.0 = 2]
    by (simp add: ex_flags_def connectToVSphere_def ex_lib_def)
  have c: "exit_code (fst (main ex_lib (ex_flags\<lparr>Datacenter := ''DC09''\<rparr>) 0)) = 1"
    using c6 [where flags = "ex_flags\<lparr>Datacenter := ''DC09''\<rparr>" and w = 0
        and e = "''datacenter not found''" and ?w1.0 = 2 and u = "()" and ?w2.0 = 3]
    by (simp add: ex_flags_def connectToVSphere_def findDatacenter_def ex_lib_def)
  have d: "exit_code (fst (main ex_lib (ex_flags\<lparr>Datacenter := ''DC02''\<rparr>) 0)) = 1"
    using c6 [where flags = "ex_flags\<lparr>Datacenter := ''DC02''\<rparr>" and w = 0
        and e = "''cluster '*' not found''" and ?w1.0 = 2 and u = "()" and ?w2.0 = 3
        and dc = "ex_dc ''DC02''" and ?w3.0 = 4]
    by (simp add: ex_flags_def connectToVSphere_def findDatacenter_def ex_lib_def ex_dc_def)
  have e: "exit_code (fst (main ex_lib ex_flags 0)) = 0"
    using c6 [where flags = ex_flags and w = 0 and ?w1.0 = 2 and u = "()" and ?w2.0 = 3
        and dc = "ex_dc ''DC01''" and clusters = "[ex_cluster ''Cluster01'' ''domain-c1'']"
        and ?w3.0 = 4] m
    by (simp add: ex_flags_def connectToVSphere_def findDatacenter_def ex_lib_def ex_dc_def)
  from a b c d e show ?thesis by simp
qed

text \<open>
  C3, as stated, fails in its last part: every \<^verbatim>\<open>continue\<close> of lines 163, 195 and 211 skips
  the \<^verbatim>\<open>append\<close> of line 313, so a cluster whose folder lookup fails is absent from the
  document, not present with empty collections.
\<close>

theorem C3_cluster_present_counterexample:
  "clusters_loop ex_no_folders ex_json_flags (ex_dc ''DC01'')
     [ex_cluster ''Cluster01'' ''domain-c1'']
     (\<lparr>ii_Datacenter = ''DC01'', ii_Clusters = []\<rparr>, [], 4) =
     (\<lparr>ii_Datacenter = ''DC01'', ii_Clusters = []\<rparr>, [], 7) \<and>
   fst (main ex_no_folders ex_json_flags 0) = \<lparr>stdout = [''DC01'' @ nl], exit_code = 0\<rparr> \<and>
   MarshalIndent ex_no_folders
     \<lparr>ii_Datacenter = ''DC01'',
       ii_Clusters = [\<lparr>ci_Name = ''Cluster01'', ci_DatastoreClusters = [],
                        ci_StandaloneDatastores = []\<rparr>]\<rparr> = Inr ''DC01 Cluster01''"
  by (simp add: run_defs lib_defs ex_no_folders_def ex_json_flags_def)

text \<open>
  C3, amended. When the folder lookup, the retrieval of the cluster's datastore list or the
  retrieval of the datastores fails for a cluster, the loop goes on with the next cluster from
  an unchanged \<^verbatim>\<open>infraInfo\<close> (the cluster is left out of the document), having written nothing
  in JSON mode and the cluster's header and the error line in text mode; and the run exits
  with code 0 once the list of clusters has been obtained, provided that in JSON mode the
  serialisation succeeds.
\<close>

theorem C3_degraded_cluster_skipped:
  "(datastoreFolders lib dc w = (Inl e, w') \<longrightarrow>
      clusters_loop lib cfg dc (cluster # clusters) (infraInfo, out, w) =
      clusters_loop lib cfg dc clusters
        (infraInfo,
         if OutputJSON cfg then out
         else out @ [nl @ ''Cluster: '' @ ccr_Name cluster @ nl,
                     replicate (length (ccr_Name cluster) + 9) (CHR ''-'') @ nl,
                     ''  Error finding datastore folders: '' @ e @ nl],
         w')) \<and>
   (datastoreFolders lib dc w = (Inr folders, w1) \<and>
    folders_loop lib folders [] w1 = (storagePods, w2) \<longrightarrow>
      (RetrieveOne_Cluster lib w2 (ccr_Reference cluster) = (Inl e, w') \<longrightarrow>
         clusters_loop lib cfg dc (cluster # clusters) (infraInfo, out, w) =
         clusters_loop lib cfg dc clusters
           (infraInfo,
            if OutputJSON cfg then out
            else out @ [nl @ ''Cluster: '' @ ccr_Name cluster @ nl,
                        replicate (length (ccr_Name cluster) + 9) (CHR ''-'') @ nl,
                        ''  Error getting cluster details: '' @ e @ nl],
            w')) \<and>
      (RetrieveOne_Cluster lib w2 (ccr_Reference cluster) = (Inr dsList, w3) \<and>
       Retrieve lib w3 dsList = (Inl e, w') \<longrightarrow>
         clusters_loop lib cfg dc (cluster # clusters) (infraInfo, out, w) =
         clusters_loop lib cfg dc clusters
           (infraInfo,
            if OutputJSON cfg then out
            else out @ [nl @ ''Cluster: '' @ ccr_Name cluster @ nl,
                        replicate (length (ccr_Name cluster) + 9) (CHR ''-'') @ nl,
                        ''  Error retrieving datastore details: '' @ e @ nl],
            w'))) \<and>
   (ClusterComputeResourceList lib w0 dc ''*'' = (Inr all_clusters, w0') \<and>
    (OutputJSON cfg \<longrightarrow> (\<forall>info. \<not> isl (MarshalIndent lib info))) \<longrightarrow>
      exit_code (fst (report lib cfg dc w0)) = 0)"
proof (intro conjI impI)
  assume "datastoreFolders lib dc w = (Inl e, w')"
  then show "clusters_loop lib cfg dc (cluster # clusters) (infraInfo, out, w) =
      clusters_loop lib cfg dc clusters
        (infraInfo,
         if OutputJSON cfg then out
         else out @ [nl @ ''Cluster: '' @ ccr_Name cluster @ nl,
                     replicate (length (ccr_Name cluster) + 9) (CHR ''-'') @ nl,
                     ''  Error finding datastore folders: '' @ e @ nl],
         w')"
    by (simp add: cluster_body_folders_fail)
next
  assume "datastoreFolders lib dc w = (Inr folders, w1) \<and>
    folders_loop lib folders [] w1 = (storagePods, w2)"
    and "RetrieveOne_Cluster lib w2 (ccr_Reference cluster) = (Inl e, w')"
  then show "clusters_loop lib cfg dc (cluster # clusters) (infraInfo, out, w) =
         clusters_loop lib cfg dc clusters
           (infraInfo,
            if OutputJSON cfg then out
            else out @ [nl @ ''Cluster: '' @ ccr_Name cluster @ nl,
                        replicate (length (ccr_Name cluster) + 9) (CHR ''-'') @ nl,
                        ''  Error getting cluster details: '' @ e @ nl],
            w')"
    by (simp add: cluster_body_cluster_fail)
next
  assume "datastoreFolders lib dc w = (Inr folders, w1) \<and>
    folders_loop lib folders [] w1 = (storagePods, w2)"
    and "RetrieveOne_Cluster lib w2 (ccr_Reference cluster) = (Inr dsList, w3) \<and>
       Retrieve lib w3 dsList = (Inl e, w')"
  then show "clusters_loop lib cfg dc (cluster # clusters) (infraInfo, out, w) =
         clusters_loop lib cfg dc clusters
           (infraInfo,
            if OutputJSON cfg then out
            else out @ [nl @ ''Cluster: '' @ ccr_Name cluster @ nl,
                        replicate (length (ccr_Name cluster) + 9) (CHR ''-'') @ nl,
                        ''  Error retrieving datastore details: '' @ e @ nl],
            w')"
    by (simp add: cluster_body_retrieve_fail)
next
  assume "ClusterComputeResourceList lib w0 dc ''*'' = (Inr all_clusters, w0') \<and>
    (OutputJSON cfg \<longrightarrow> (\<forall>info. \<not> isl (MarshalIndent lib info)))"
  then have "ClusterComputeResourceList lib w0 dc ''*'' = (Inr all_clusters, w0')"
    and "OutputJSON cfg \<longrightarrow> (\<forall>info. \<not> isl (MarshalIndent lib info))"
    by blast+
  then show "exit_code (fst (report lib cfg dc w0)) = 0"
    by (rule report_exit_code)
qed

theorem C3_degraded_cluster_skipped_witness:
  "clusters_loop ex_flaky ex_json_flags (ex_dc ''DC01'')
     [ex_cluster ''Cluster01'' ''domain-c1'', ex_cluster ''Cluster02'' ''domain-c2'',
      ex_cluster ''Cluster03'' ''domain-c3'', ex_cluster ''Cluster04'' ''domain-c4'']
     (\<lparr>ii_Datacenter = ''DC01'', ii_Clusters = []\<rparr>, [], 4) =
   clusters_loop ex_flaky ex_json_flags (ex_dc ''DC01'')
     [ex_cluster ''Cluster04'' ''domain-c4'']
     (\<lparr>ii_Datacenter = ''DC01'', ii_Clusters = []\<rparr>, [], 22) \<and>
   exit_code (fst (report ex_flaky ex_json_flags (ex_dc ''DC01'') 3)) = 0"
proof -
  let ?dc = "ex_dc ''DC01''"
  let ?I = "\<lparr>ii_Datacenter = ''DC01'', ii_Clusters = []\<rparr>"
  let ?pods = "[ex_pod ''StoragePod01'' [''datastore-1'', ''datastore-2''],
                ex_pod ''StoragePod02'' [''datastore-3'', ''datastore-9''],
                ex_pod ''StoragePod03'' [''datastore-8'']]"
  have j: "OutputJSON ex_json_flags" by (simp add: ex_json_flags_def)
  have f1: "datastoreFolders ex_flaky ?dc 4 = (Inl ''connection reset'', 7)"
    by (simp add: datastoreFolders_def ex_flaky_def ex_lib_def)
  have f2: "datastoreFolders ex_flaky ?dc 7 = (Inr [ex_folder], 9) \<and>
      folders_loop ex_flaky [ex_folder] [] 9 = (?pods, 13)"
    by (simp add: datastoreFolders_def ex_flaky_def ex_lib_def)
  have r2: "RetrieveOne_Cluster ex_flaky 13 (ccr_Reference (ex_cluster ''Cluster02'' ''domain-c2'')) =
      (Inl ''permission denied'', 14)"
    by (simp add: ex_flaky_def ex_lib_def ex_cluster_def)
  have f3: "datastoreFolders ex_flaky ?dc 14 = (Inr [ex_folder], 16) \<and>
      folders_loop ex_flaky [ex_folder] [] 16 = (?pods, 20)"
    by (simp add: datastoreFolders_def ex_flaky_def ex_lib_def)
  have r3: "RetrieveOne_Cluster ex_flaky 20 (ccr_Reference (ex_cluster ''Cluster03'' ''domain-c3'')) =
      (Inr [], 21) \<and> Retrieve ex_flaky 21 [] = (Inl ''object references is empty'', 22)"
    by (simp add: ex_flaky_def ex_lib_def ex_cluster_def)
  have l: "ClusterComputeResourceList ex_flaky 3 ?dc ''*'' =
      (Inr [ex_cluster ''Cluster01'' ''domain-c1'', ex_cluster ''Cluster02'' ''domain-c2'',
            ex_cluster ''Cluster03'' ''domain-c3'', ex_cluster ''Cluster04'' ''domain-c4''], 4) \<and>
      (OutputJSON ex_json_flags \<longrightarrow> (\<forall>info. \<not> isl (MarshalIndent ex_flaky info)))"
    by (simp add: ex_flaky_def ex_lib_def ex_marshal_def)
  have s1: "clusters_loop ex_flaky ex_json_flags ?dc
     (ex_cluster ''Cluster01'' ''domain-c1'' # [ex_cluster ''Cluster02'' ''domain-c2'',
      ex_cluster ''Cluster03'' ''domain-c3'', ex_cluster ''Cluster04'' ''domain-c4'']) (?I, [], 4) =
    clusters_loop ex_flaky ex_json_flags ?dc
     [ex_cluster ''Cluster02'' ''domain-c2'',
      ex_cluster ''Cluster03'' ''domain-c3'', ex_cluster ''Cluster04'' ''domain-c4''] (?I, [], 7)"
    using C3_degraded_cluster_skipped [where lib = ex_flaky and dc = ?dc and w = 4
        and e = "''connection reset''" and w' = 7 and cfg = ex_json_flags
        and cluster = "ex_cluster ''Cluster01'' ''domain-c1''"
        and clusters = "[ex_cluster ''Cluster02'' ''domain-c2'',
           ex_cluster ''Cluster03'' ''domain-c3'', ex_cluster ''Cluster04'' ''domain-c4'']"
        and infraInfo = ?I and out = "[]"] f1 j
    by (simp del: clusters_loop.simps)
  have s2: "clusters_loop ex_flaky ex_json_flags ?dc
     (ex_cluster ''Cluster02'' ''domain-c2'' #
      [ex_cluster ''Cluster03'' ''domain-c3'', ex_cluster ''Cluster04'' ''domain-c4'']) (?I, [], 7) =
    clusters_loop ex_flaky ex_json_flags ?dc
     [ex_cluster ''Cluster03'' ''domain-c3'', ex_cluster ''Cluster04'' ''domain-c4''] (?I, [], 14)"
    using C3_degraded_cluster_skipped [where lib = ex_flaky and dc = ?dc and w = 7
        and folders = "[ex_folder]" and ?w1.0 = 9 and storagePods = ?pods and ?w2.0 = 13
        and cluster = "ex_cluster ''Cluster02'' ''domain-c2''"
        and clusters = "[ex_cluster ''Cluster03'' ''domain-c3'', ex_cluster ''Cluster04'' ''domain-c4'']"
        and e = "''permission denied''" and w' = 14 and cfg = ex_json_flags
        and infraInfo = ?I and out = "[]"] f2 r2 j
    by (simp del: clusters_loop.simps)
  have s3: "clusters_loop ex_flaky ex_json_flags ?dc
     (ex_cluster ''Cluster03'' ''domain-c3'' # [ex_cluster ''Cluster04'' ''domain-c4'']) (?I, [], 14) =
    clusters_loop ex_flaky ex_json_flags ?dc
     [ex_cluster ''Cluster04'' ''domain-c4''] (?I, [], 22)"
    using C3_degraded_cluster_skipped [where lib = ex_flaky and dc = ?dc and w = 14
        and folders = "[ex_folder]" and ?w1.0 = 16 and storagePods = ?pods and ?w2.0 = 20
        and cluster = "ex_cluster ''Cluster03'' ''domain-c3''"
        and clusters = "[ex_cluster ''Cluster04'' ''domain-c4'']" and dsList = "[]" and ?w3.0 = 21
        and e = "''object references is empty''" and w' = 22 and cfg = ex_json_flags
        and infraInfo = ?I and out = "[]"] f3 r3 j
    by (simp del: clusters_loop.simps)
  have x: "exit_code (fst (report ex_flaky ex_json_flags ?dc 3)) = 0"
    using C3_degraded_cluster_skipped [where lib = ex_flaky and dc = ?dc and ?w0.0 = 3
        and w0' = 4 and cfg = ex_json_flags
        and all_clusters = "[ex_cluster ''Cluster01'' ''domain-c1'', ex_cluster ''Cluster02'' ''domain-c2'',
            ex_cluster ''Cluster03'' ''domain-c3'', ex_cluster ''Cluster04'' ''domain-c4'']"] l
    by blast
  from s1 s2 s3 x show ?thesis by (simp del: clusters_loop.simps)
qed

section \<open>The folder lookup\<close>

text \<open>
  C7. The lookup asks for \<^verbatim>\<open>*/datastores\<close>, then, only if that fails, for \<^verbatim>\<open>*/datastore\<close>,
  then, only if that fails too, for the datacenter's inventory path followed by
  \<^verbatim>\<open>/datastore\<close>. Against the finder a list that comes without an error is not empty, so
  what the lookup returns is what the specification's lookup returns, the first result of the
  chain that is neither an error nor empty; and its folders are the ones whose storage pods
  the cluster's report is made from.
\<close>

theorem C7_first_success:
  assumes "finder_contract lib"
  shows
  "datastoreFolders lib dc w = spec_listDatastoreFolders lib dc w \<and>
   (FolderList lib w dc ''*/datastores'' = (Inr fs, w1) \<longrightarrow>
      fs \<noteq> [] \<and> datastoreFolders lib dc w = (Inr fs, w1)) \<and>
   (FolderList lib w dc ''*/datastores'' = (Inl e1, w1) \<longrightarrow>
      (FolderList lib w1 dc ''*/datastore'' = (Inr fs, w2) \<longrightarrow>
         fs \<noteq> [] \<and> datastoreFolders lib dc w = (Inr fs, w2)) \<and>
      (FolderList lib w1 dc ''*/datastore'' = (Inl e2, w2) \<longrightarrow>
         datastoreFolders lib dc w =
           FolderList lib w2 dc (dc_InventoryPath dc @ ''/datastore''))) \<and>
   (datastoreFolders lib dc w = (Inr fs, w1) \<and>
    folders_loop lib fs [] w1 = (storagePods, w2) \<and>
    RetrieveOne_Cluster lib w2 (ccr_Reference cluster) = (Inr dsList, w3) \<and>
    Retrieve lib w3 dsList = (Inr datastores, w4) \<and> OutputJSON cfg \<longrightarrow>
      cluster_body lib cfg dc cluster (infraInfo, out, w) =
        (infraInfo\<lparr>ii_Clusters := ii_Clusters infraInfo @
           [fst (reportCluster True storagePods datastores
              (\<lparr>ci_Name = ccr_Name cluster, ci_DatastoreClusters = [],
                ci_StandaloneDatastores = []\<rparr>, out))]\<rparr>,
         out, w4))"
proof (intro conjI impI)
  from assms
  have c: "\<forall>v p fs' v'. FolderList lib v dc p = (Inr fs', v') \<longrightarrow> fs' \<noteq> []"
    unfolding finder_contract_def by blast
  have u: "nonerror_nonempty (fst (FolderList lib v dc p)) \<longleftrightarrow>
      \<not> isl (fst (FolderList lib v dc p))" for v p
  proof (cases "FolderList lib v dc p")
    case (Pair r v')
    with c show ?thesis by (cases r) (auto simp: nonerror_nonempty_def)
  qed
  show "datastoreFolders lib dc w = spec_listDatastoreFolders lib dc w"
  proof (cases "FolderList lib w dc ''*/datastores''")
    case p1: (Pair r1 v1)
    show ?thesis
    proof (cases r1)
      case (Inr fs1)
      with p1 u [of w "''*/datastores''"] show ?thesis
        by (simp add: datastoreFolders_def spec_listDatastoreFolders_def)
    next
      case l1: (Inl x1)
      show ?thesis
      proof (cases "FolderList lib v1 dc ''*/datastore''")
        case p2: (Pair r2 v2)
        with p1 l1 u [of w "''*/datastores''"] u [of v1 "''*/datastore''"] show ?thesis
          by (cases r2) (simp_all add: datastoreFolders_def spec_listDatastoreFolders_def)
      qed
    qed
  qed
next
  assume "FolderList lib w dc ''*/datastores'' = (Inr fs, w1)"
  with assms show "fs \<noteq> []"
    unfolding finder_contract_def by blast
next
  assume "FolderList lib w dc ''*/datastores'' = (Inr fs, w1)"
  then show "datastoreFolders lib dc w = (Inr fs, w1)"
    by (simp add: datastoreFolders_def)
next
  assume "FolderList lib w1 dc ''*/datastore'' = (Inr fs, w2)"
  with assms show "fs \<noteq> []"
    unfolding finder_contract_def by blast
next
  assume "FolderList lib w dc ''*/datastores'' = (Inl e1, w1)"
    and "FolderList lib w1 dc ''*/datastore'' = (Inr fs, w2)"
  then show "datastoreFolders lib dc w = (Inr fs, w2)"
    by (simp add: datastoreFolders_def)
next
  assume "FolderList lib w dc ''*/datastores'' = (Inl e1, w1)"
    and "FolderList lib w1 dc ''*/datastore'' = (Inl e2, w2)"
  then show "datastoreFolders lib dc w =
      FolderList lib w2 dc (dc_InventoryPath dc @ ''/datastore'')"
    by (simp add: datastoreFolders_def)
next
  assume a: "datastoreFolders lib dc w = (Inr fs, w1) \<and>
    folders_loop lib fs [] w1 = (storagePods, w2) \<and>
    RetrieveOne_Cluster lib w2 (ccr_Reference cluster) = (Inr dsList, w3) \<and>
    Retrieve lib w3 dsList = (Inr datastores, w4) \<and> OutputJSON cfg"
  then have "datastoreFolders lib dc w = (Inr fs, w1)"
    and "folders_loop lib fs [] w1 = (storagePods, w2)"
    and "RetrieveOne_Cluster lib w2 (ccr_Reference cluster) = (Inr dsList, w3)"
    and "Retrieve lib w3 dsList = (Inr datastores, w4)"
    by blast+
  from cluster_body_ok [OF this] a
  show "cluster_body lib cfg dc cluster (infraInfo, out, w) =
        (infraInfo\<lparr>ii_Clusters := ii_Clusters infraInfo @
           [fst (reportCluster True storagePods datastores
              (\<lparr>ci_Name = ccr_Name cluster, ci_DatastoreClusters = [],
                ci_StandaloneDatastores = []\<rparr>, out))]\<rparr>,
         out, w4)"
    by simp
qed

theorem C7_first_success_witness:
  "datastoreFolders (ex_lib\<lparr>FolderList := (\<lambda>w dc p. (Inr [ex_folder], Suc w))\<rparr>)
     (ex_dc ''DC01'') 0 = (Inr [ex_folder], 1) \<and>
   datastoreFolders ex_lib (ex_dc ''DC01'') 0 = (Inr [ex_folder], 2) \<and>
   datastoreFolders ex_no_folders (ex_dc ''DC01'') 0 = (Inl ''folder not found'', 3) \<and>
   spec_listDatastoreFolders ex_lib (ex_dc ''DC01'') 0 = (Inr [ex_folder], 2)"
proof -
  let ?first = "ex_lib\<lparr>FolderList := (\<lambda>w dc p. (Inr [ex_folder], Suc w))\<rparr>"
  let ?dc = "ex_dc ''DC01''"
  have k: "finder_contract ?first" "finder_contract ex_no_folders"
    by (simp_all add: finder_contract_def ex_no_folders_def ex_lib_def)
  have a1: "FolderList ?first 0 ?dc ''*/datastores'' = (Inr [ex_folder], 1)"
    by simp
  from C7_first_success [OF k(1), where w = 0 and dc = ?dc
      and fs = "[ex_folder]" and ?w1.0 = 1, THEN conjunct2, THEN conjunct1] a1
  have a: "datastoreFolders ?first ?dc 0 = (Inr [ex_folder], 1)"
    by blast
  have b1: "FolderList ex_lib 0 ?dc ''*/datastores'' = (Inl ''folder not found'', 1)"
    and b2: "FolderList ex_lib 1 ?dc ''*/datastore'' = (Inr [ex_folder], 2)"
    by (simp_all add: ex_lib_def)
  from C7_first_success [OF finder_contract_ex_lib, where w = 0 and dc = ?dc
      and ?e1.0 = "''folder not found''" and ?w1.0 = 1 and fs = "[ex_folder]" and ?w2.0 = 2,
      THEN conjunct2, THEN conjunct2, THEN conjunct1] b1 b2
  have b: "datastoreFolders ex_lib ?dc 0 = (Inr [ex_folder], 2)"
    by blast
  have c1: "FolderList ex_no_folders 0 ?dc ''*/datastores'' = (Inl ''folder not found'', 1)"
    and c2: "FolderList ex_no_folders 1 ?dc ''*/datastore'' = (Inl ''folder not found'', 2)"
    and c3: "FolderList ex_no_folders 2 ?dc (dc_InventoryPath ?dc @ ''/datastore'') =
      (Inl ''folder not found'', 3)"
    by (simp_all add: ex_no_folders_def ex_lib_def)
  from C7_first_success [OF k(2), where w = 0 and dc = ?dc
      and ?e1.0 = "''folder not found''" and ?w1.0 = 1
      and ?e2.0 = "''folder not found''" and ?w2.0 = 2,
      THEN conjunct2, THEN conjunct2, THEN conjunct1] c1 c2
  have "datastoreFolders ex_no_folders ?dc 0 =
      FolderList ex_no_folders 2 ?dc (dc_InventoryPath ?dc @ ''/datastore'')"
    by blast
  with c3 have c: "datastoreFolders ex_no_folders ?dc 0 = (Inl ''folder not found'', 3)"
    by simp
  from C7_first_success [OF finder_contract_ex_lib, where w = 0 and dc = ?dc, THEN conjunct1] b
  have d: "spec_listDatastoreFolders ex_lib ?dc 0 = (Inr [ex_folder], 2)"
    by simp
  from a b c d show ?thesis by (intro conjI)
qed

text \<open>
  The lookup itself tests the error only (lines 153, 156, 159). A finder that answered the
  first path with an empty list and no error, as govmomi's does not, would end it there, where
  the specification's lookup would go on to the next path.
\<close>

lemma lookup_without_contract:
  "\<not> finder_contract ex_empty_first \<and>
   fst (datastoreFolders ex_empty_first (ex_dc ''DC01'') 0) = Inr [] \<and>
   fst (spec_listDatastoreFolders ex_empty_first (ex_dc ''DC01'') 0) = Inr [ex_folder]"
proof -
  have "FolderList ex_empty_first 0 (ex_dc ''DC01'') ''*/datastores'' = (Inr [], 1)"
    by (simp add: ex_empty_first_def ex_lib_def)
  then have "\<not> finder_contract ex_empty_first"
    unfolding finder_contract_def by blast
  then show ?thesis
    by (simp add: datastoreFolders_def spec_listDatastoreFolders_def nonerror_nonempty_def
        ex_empty_first_def ex_lib_def)
qed

section \<open>Two runs\<close>

lemma connectToVSphere_det:
  assumes "unchanged_snapshot lib"
  shows "fst (connectToVSphere lib cfg w) = fst (connectToVSphere lib cfg w')"
proof (cases "ParseURL lib (URL cfg)")
  case (Inl e)
  then show ?thesis by (simp add: connectToVSphere_def)
next
  case (Inr u)
  have a: "fst (NewClient lib w u (Insecure cfg)) = fst (NewClient lib w' u (Insecure cfg))"
    using assms by (simp add: unchanged_snapshot_def)
  have b: "fst (Login lib v (Username cfg) (Password cfg)) =
           fst (Login lib v' (Username cfg) (Password cfg))" for v v'
    using assms by (simp add: unchanged_snapshot_def)
  show ?thesis
  proof (cases "fst (NewClient lib w' u (Insecure cfg))")
    case l: (Inl e)
    with Inr a show ?thesis by (simp add: connectToVSphere_def split_beta)
  next
    case r: (Inr x)
    show ?thesis
      using Inr a r b [of "snd (NewClient lib w u (Insecure cfg))"
          "snd (NewClient lib w' u (Insecure cfg))"]
      by (cases "fst (Login lib (snd (NewClient lib w' u (Insecure cfg))) (Username cfg)
            (Password cfg))")
        (simp_all add: connectToVSphere_def split_beta)
  qed
qed

lemma findDatacenter_det:
  assumes "unchanged_snapshot lib"
  shows "fst (findDatacenter lib cfg w) = fst (findDatacenter lib cfg w')"
  using assms by (simp add: findDatacenter_def unchanged_snapshot_def)

lemma listDatacentersAndExit_det:
  assumes "unchanged_snapshot lib"
  shows "fst (listDatacentersAndExit lib w) = fst (listDatacentersAndExit lib w')"
proof -
  have a: "fst (DatacenterList lib w ''*'') = fst (DatacenterList lib w' ''*'')"
    using assms by (simp add: unchanged_snapshot_def)
  show ?thesis
    using a by (cases "fst (DatacenterList lib w' ''*'')")
      (simp_all add: listDatacentersAndExit_def split_beta)
qed

lemma datastoreFolders_det:
  assumes "unchanged_snapshot lib"
  shows "fst (datastoreFolders lib dc w) = fst (datastoreFolders lib dc w')"
proof -
  have f: "fst (FolderList lib v dc p) = fst (FolderList lib v' dc p)" for v v' p
    using assms by (simp add: unchanged_snapshot_def)
  show ?thesis
  proof (cases "fst (FolderList lib w' dc ''*/datastores'')")
    case (Inr fs)
    with f [of w "''*/datastores''" w'] show ?thesis
      by (simp add: datastoreFolders_def split_beta)
  next
    case l1: (Inl e1)
    let ?v = "snd (FolderList lib w dc ''*/datastores'')"
    let ?v' = "snd (FolderList lib w' dc ''*/datastores'')"
    show ?thesis
    proof (cases "fst (FolderList lib ?v' dc ''*/datastore'')")
      case (Inr fs)
      with l1 f [of w "''*/datastores''" w'] f [of ?v "''*/datastore''" ?v'] show ?thesis
        by (simp add: datastoreFolders_def split_beta)
    next
      case (Inl e2)
      with l1 f [of w "''*/datastores''" w'] f [of ?v "''*/datastore''" ?v']
        f [of "snd (FolderList lib ?v dc ''*/datastore'')" "dc_InventoryPath dc @ ''/datastore''"
             "snd (FolderList lib ?v' dc ''*/datastore'')"]
      show ?thesis
        by (simp add: datastoreFolders_def split_beta)
    qed
  qed
qed

lemma children_loop_det:
  assumes "unchanged_snapshot lib"
  shows "fst (children_loop lib children storagePods w) =
         fst (children_loop lib children storagePods w')"
proof (induction children arbitrary: storagePods w w')
  case Nil
  show ?case by simp
next
  case (Cons c children)
  show ?case
  proof (cases c)
    case (OtherObject r)
    with Cons.IH [of storagePods w w'] show ?thesis by simp
  next
    case (StoragePod pod)
    have a: "fst (RetrieveOne_StoragePod lib w pod) = fst (RetrieveOne_StoragePod lib w' pod)"
      using assms by (simp add: unchanged_snapshot_def)
    let ?v = "snd (RetrieveOne_StoragePod lib w pod)"
    let ?v' = "snd (RetrieveOne_StoragePod lib w' pod)"
    show ?thesis
    proof (cases "fst (RetrieveOne_StoragePod lib w' pod)")
      case (Inl e)
      with StoragePod a Cons.IH [of storagePods ?v ?v'] show ?thesis
        by (simp add: split_beta)
    next
      case (Inr podInfo)
      with StoragePod a Cons.IH [of "storagePods @ [podInfo]" ?v ?v'] show ?thesis
        by (simp add: split_beta)
    qed
  qed
qed

lemma folders_loop_det:
  assumes "unchanged_snapshot lib"
  shows "fst (folders_loop lib folders storagePods w) =
         fst (folders_loop lib folders storagePods w')"
proof (induction folders arbitrary: storagePods w w')
  case Nil
  show ?case by simp
next
  case (Cons dsFolder folders)
  have a: "fst (Children lib w dsFolder) = fst (Children lib w' dsFolder)"
    using assms by (simp add: unchanged_snapshot_def)
  let ?v = "snd (Children lib w dsFolder)"
  let ?v' = "snd (Children lib w' dsFolder)"
  show ?case
  proof (cases "fst (Children lib w' dsFolder)")
    case (Inl e)
    with a Cons.IH [of storagePods ?v ?v'] show ?thesis
      by (simp add: split_beta)
  next
    case (Inr children)
    have c: "fst (children_loop lib children storagePods ?v) =
             fst (children_loop lib children storagePods ?v')"
      using assms by (rule children_loop_det)
    from Inr a c
      Cons.IH [of "fst (children_loop lib children storagePods ?v')"
        "snd (children_loop lib children storagePods ?v)"
        "snd (children_loop lib children storagePods ?v')"]
    show ?thesis
      by (simp add: split_beta)
  qed
qed

lemma cluster_body_det:
  assumes "unchanged_snapshot lib"
  shows "fst (cluster_body lib cfg dc cluster (infraInfo, out, w)) =
         fst (cluster_body lib cfg dc cluster (infraInfo, out, w')) \<and>
         fst (snd (cluster_body lib cfg dc cluster (infraInfo, out, w))) =
         fst (snd (cluster_body lib cfg dc cluster (infraInfo, out, w')))"
proof -
  have df: "fst (datastoreFolders lib dc w) = fst (datastoreFolders lib dc w')"
    using assms by (rule datastoreFolders_det)
  let ?v = "snd (datastoreFolders lib dc w)"
  let ?v' = "snd (datastoreFolders lib dc w')"
  show ?thesis
  proof (cases "fst (datastoreFolders lib dc w')")
    case (Inl e)
    with df show ?thesis
      by (simp add: cluster_body_def split_beta Let_def)
  next
    case f: (Inr folders)
    have fl: "fst (folders_loop lib folders [] ?v) = fst (folders_loop lib folders [] ?v')"
      using assms by (rule folders_loop_det)
    let ?u = "snd (folders_loop lib folders [] ?v)"
    let ?u' = "snd (folders_loop lib folders [] ?v')"
    have rc: "fst (RetrieveOne_Cluster lib ?u (ccr_Reference cluster)) =
              fst (RetrieveOne_Cluster lib ?u' (ccr_Reference cluster))"
      using assms by (simp add: unchanged_snapshot_def)
    show ?thesis
    proof (cases "fst (RetrieveOne_Cluster lib ?u' (ccr_Reference cluster))")
      case (Inl e)
      with df f fl rc show ?thesis
        by (simp add: cluster_body_def split_beta Let_def)
    next
      case r: (Inr dsList)
      let ?t = "snd (RetrieveOne_Cluster lib ?u (ccr_Reference cluster))"
      let ?t' = "snd (RetrieveOne_Cluster lib ?u' (ccr_Reference cluster))"
      have rt: "fst (Retrieve lib ?t dsList) = fst (Retrieve lib ?t' dsList)"
        using assms by (simp add: unchanged_snapshot_def)
      show ?thesis
        using df f fl rc r rt
        by (cases "fst (Retrieve lib ?t' dsList)")
          (simp_all add: cluster_body_def split_beta Let_def)
    qed
  qed
qed

lemma clusters_loop_det:
  assumes "unchanged_snapshot lib"
  shows "fst (clusters_loop lib cfg dc clusters (infraInfo, out, w)) =
         fst (clusters_loop lib cfg dc clusters (infraInfo, out, w')) \<and>
         fst (snd (clusters_loop lib cfg dc clusters (infraInfo, out, w))) =
         fst (snd (clusters_loop lib cfg dc clusters (infraInfo, out, w')))"
proof (induction clusters arbitrary: infraInfo out w w')
  case Nil
  show ?case by simp
next
  case (Cons cluster clusters)
  obtain i1 o1 v where b: "cluster_body lib cfg dc cluster (infraInfo, out, w) = (i1, o1, v)"
    by (cases "cluster_body lib cfg dc cluster (infraInfo, out, w)")
  obtain i2 o2 v' where b': "cluster_body lib cfg dc cluster (infraInfo, out, w') = (i2, o2, v')"
    by (cases "cluster_body lib cfg dc cluster (infraInfo, out, w')")
  from cluster_body_det [OF assms, of cfg dc cluster infraInfo out w w'] b b'
  have "i2 = i1" and "o2 = o1" by simp_all
  with b b' Cons.IH [of i1 o1 v v'] show ?case by simp
qed

lemma report_det:
  assumes "unchanged_snapshot lib"
  shows "fst (report lib cfg dc w) = fst (report lib cfg dc w')"
proof -
  have cl: "fst (ClusterComputeResourceList lib w dc ''*'') =
            fst (ClusterComputeResourceList lib w' dc ''*'')"
    using assms by (simp add: unchanged_snapshot_def)
  let ?v = "snd (ClusterComputeResourceList lib w dc ''*'')"
  let ?v' = "snd (ClusterComputeResourceList lib w' dc ''*'')"
  show ?thesis
  proof (cases "fst (ClusterComputeResourceList lib w' dc ''*'')")
    case (Inl e)
    with cl show ?thesis by (simp add: report_def split_beta Let_def)
  next
    case (Inr clusters)
    note lp = clusters_loop_det [OF assms, of cfg dc clusters _ _ ?v ?v']
    show ?thesis
      using cl Inr lp
      by (simp add: report_def split_beta Let_def split: sum.splits)
  qed
qed

lemma main_det:
  assumes "unchanged_snapshot lib"
  shows "fst (main lib flags w) = fst (main lib flags w')"
proof (cases "parseFlags flags")
  case (Inl out)
  then show ?thesis by (simp add: main_def)
next
  case (Inr cfg)
  have c: "fst (connectToVSphere lib cfg w) = fst (connectToVSphere lib cfg w')"
    using assms by (rule connectToVSphere_det)
  let ?v = "snd (connectToVSphere lib cfg w)"
  let ?v' = "snd (connectToVSphere lib cfg w')"
  show ?thesis
  proof (cases "fst (connectToVSphere lib cfg w')")
    case (Inl e)
    with Inr c show ?thesis by (simp add: main_def split_beta)
  next
    case u: (Inr x)
    have d: "fst (findDatacenter lib cfg ?v) = fst (findDatacenter lib cfg ?v')"
      using assms by (rule findDatacenter_det)
    show ?thesis
    proof (cases "fst (findDatacenter lib cfg ?v')")
      case (Inl e)
      with Inr c u d
        listDatacentersAndExit_det [OF assms, of "snd (findDatacenter lib cfg ?v)"
          "snd (findDatacenter lib cfg ?v')"]
      show ?thesis by (simp add: main_def split_beta)
    next
      case r: (Inr dc)
      with Inr c u d
        report_det [OF assms, of cfg dc "snd (findDatacenter lib cfg ?v)"
          "snd (findDatacenter lib cfg ?v')"]
      show ?thesis by (simp add: main_def split_beta)
    qed
  qed
qed

text \<open>
  C8. Over an unchanged inventory, standard output and the exit code of a run do not depend on
  the state of the world in which it starts: a second run, started in the world the first
  one left, writes what the first wrote (in JSON mode, the same document).
\<close>

theorem C8_deterministic:
  assumes "unchanged_snapshot lib"
  shows "fst (main lib flags w') = fst (main lib flags w) \<and>
         fst (main lib flags (snd (main lib flags w))) = fst (main lib flags w)"
  using main_det [OF assms, of flags w' w]
    main_det [OF assms, of flags "snd (main lib flags w)" w]
  by simp

theorem C8_deterministic_witness:
  "unchanged_snapshot ex_lib \<and>
   fst (main ex_lib ex_json_flags (snd (main ex_lib ex_json_flags 0))) =
     \<lparr>stdout = [''DC01 Cluster01'' @ nl], exit_code = 0\<rparr> \<and>
   fst (main ex_lib ex_json_flags 0) = \<lparr>stdout = [''DC01 Cluster01'' @ nl], exit_code = 0\<rparr>"
proof -
  have u: "unchanged_snapshot ex_lib"
    by (simp add: unchanged_snapshot_def ex_lib_def)
  have r: "fst (main ex_lib ex_json_flags 0) =
      \<lparr>stdout = [''DC01 Cluster01'' @ nl], exit_code = 0\<rparr>"
    by (simp add: run_defs lib_defs ex_json_flags_def)
  from C8_deterministic [OF u, of ex_json_flags _ 0] u r show ?thesis by simp
qed

text \<open>
  The hypothesis is needed: on the vSphere whose folder lookup fails during its first seven
  calls, a second run, started when the first has ended, reports a cluster that the first
  run left out.
\<close>

lemma changed_inventory_changes_output:
  "snd (main ex_flaky ex_json_flags 0) = 31 \<and>
   fst (main ex_flaky ex_json_flags 0) =
     \<lparr>stdout = [''DC01 Cluster04'' @ nl], exit_code = 0\<rparr> \<and>
   fst (main ex_flaky ex_json_flags 31) =
     \<lparr>stdout = [''DC01 Cluster01 Cluster04'' @ nl], exit_code = 0\<rparr>"
  by (simp add: run_defs lib_defs ex_flaky_def ex_json_flags_def)

end
